theory Spec2Isabelle
  imports Complex_Main
begin

section \<open>Numbers, missing values and errors\<close>

text \<open>
  The engine computes on IEEE doubles held in pandas columns. The embedding idealises a
  finite double as a \<^typ>\<open>real\<close> and writes the one special value the engine itself
  produces, NaN (pandas' missing value), as \<^term>\<open>None\<close>. A column that may hold NaN is a
  list of cells; a column that cannot (an input series, or a column after \<open>fillna\<close>) is
  a list of reals. Rounding and the infinities that pandas arithmetic produces without
  raising are outside the model. A quotient by a zero close would be such an infinity in the
  source, so every statement below that rests on a quotient assumes that no close in the
  table is zero (the input contract asks for positive prices).
\<close>

type_synonym cell = "real option"

text \<open>
  The exceptions a run can end with. \<open>ValueError\<close> is pandas' complaint about a column
  that does not fit the index, \<open>IndexError\<close> is Python's for \<open>equity_curve[-1]\<close> on an
  empty list, \<open>TypeError\<close> is \<open>float()\<close> applied to a complex number, \<open>OverflowError\<close>
  is a power beyond the range of a double, \<open>ZeroDivisionError\<close> is \<open>0.0 ** y\<close> for negative
  \<open>y\<close>. \<open>InvalidInputError\<close> and \<open>InsufficientDataError\<close> are the error kinds the
  specification names; no statement of the engine raises them.
\<close>

datatype error =
    ValueError | IndexError | TypeError | OverflowError | ZeroDivisionError
  | InvalidInputError | InsufficientDataError

text \<open>Arithmetic on cells: NaN in, NaN out.\<close>

definition nan2 :: "(real \<Rightarrow> real \<Rightarrow> real) \<Rightarrow> cell \<Rightarrow> cell \<Rightarrow> cell" where
  "nan2 f a b = (case a of None \<Rightarrow> None | Some x \<Rightarrow> (case b of None \<Rightarrow> None | Some y \<Rightarrow> Some (f x y)))"

text \<open>\<open>Series.shift(1)\<close>: every value moves one row down, the first row becomes NaN.\<close>

definition shift1 :: "'a list \<Rightarrow> 'a option list" where
  "shift1 xs = (case xs of [] \<Rightarrow> [] | _ # _ \<Rightarrow> None # map Some (butlast xs))"

text \<open>\<open>Series.fillna(v)\<close>.\<close>

definition fillna :: "real \<Rightarrow> cell list \<Rightarrow> real list" where
  "fillna v xs = map (\<lambda>c. case c of None \<Rightarrow> v | Some x \<Rightarrow> x) xs"

text \<open>\<open>Series.pct_change()\<close> is \<open>xs / xs.shift(1) - 1\<close>, \<open>Series.diff()\<close> is
  \<open>xs - xs.shift(1)\<close>.\<close>

definition pct_change :: "real list \<Rightarrow> cell list" where
  "pct_change xs = map2 (\<lambda>x p. nan2 (\<lambda>a b. a / b - 1) (Some x) p) xs (shift1 xs)"

definition diff :: "real list \<Rightarrow> cell list" where
  "diff xs = map2 (\<lambda>x p. nan2 (-) (Some x) p) xs (shift1 xs)"

text \<open>\<open>Series.cumprod()\<close> and \<open>Series.expanding(min_periods=1).max()\<close> on a column
  without NaN: running product and running maximum.\<close>

fun cumprod_from :: "real \<Rightarrow> real list \<Rightarrow> real list" where
  "cumprod_from a [] = []"
| "cumprod_from a (x # xs) = (a * x) # cumprod_from (a * x) xs"

definition cumprod :: "real list \<Rightarrow> real list" where
  "cumprod xs = cumprod_from 1 xs"

fun expanding_max_from :: "real \<Rightarrow> real list \<Rightarrow> real list" where
  "expanding_max_from a [] = []"
| "expanding_max_from a (x # xs) = max a x # expanding_max_from (max a x) xs"

definition expanding_max :: "real list \<Rightarrow> real list" where
  "expanding_max xs = (case xs of [] \<Rightarrow> [] | x # ys \<Rightarrow> x # expanding_max_from x ys)"

text \<open>\<open>Series.min()\<close>: NaN on an empty column.\<close>

definition series_min :: "real list \<Rightarrow> cell" where
  "series_min xs = (case xs of [] \<Rightarrow> None | x # ys \<Rightarrow> Some (fold min ys x))"

text \<open>
  Python's \<open>x ** y\<close> on floats. A negative base with a fractional exponent gives a complex
  number instead of raising; the exception comes later, from \<open>float()\<close>. The exponent of
  the engine is \<open>1 / (n / 252)\<close> for \<open>n\<close> periods; as a double it is integral exactly when
  \<open>n\<close> divides 252, as it is over the reals. Unlike pandas arithmetic, \<open>**\<close> raises
  \<open>OverflowError\<close> when its result is infinite as a double: \<open>double_limit\<close> is the least
  real that rounds to infinity, and for a complex result the magnitude \<open>|x| ** y\<close> decides.
\<close>

datatype pynum = PyFloat real | PyComplex

definition double_limit :: real where
  "double_limit = 2 ^ 1024 - 2 ^ 970"

definition float_pow :: "real \<Rightarrow> real \<Rightarrow> error + pynum" where
  "float_pow x y =
     (if y = 0 then Inr (PyFloat 1)
      else if x = 0 then (if y < 0 then Inl ZeroDivisionError else Inr (PyFloat 0))
      else if 0 < x then
        (if x powr y < double_limit then Inr (PyFloat (x powr y)) else Inl OverflowError)
      else if y = of_int \<lfloor>y\<rfloor> then
        (if \<bar>x powi \<lfloor>y\<rfloor>\<bar> < double_limit then Inr (PyFloat (x powi \<lfloor>y\<rfloor>))
         else Inl OverflowError)
      else
        (if (- x) powr y < double_limit then Inr PyComplex else Inl OverflowError))"

definition pynum_map :: "(real \<Rightarrow> real) \<Rightarrow> pynum \<Rightarrow> pynum" where
  "pynum_map f v = (case v of PyFloat x \<Rightarrow> PyFloat (f x) | PyComplex \<Rightarrow> PyComplex)"

definition py_float :: "pynum \<Rightarrow> error + real" where
  "py_float v = (case v of PyFloat x \<Rightarrow> Inr x | PyComplex \<Rightarrow> Inl TypeError)"


section \<open>Data model\<close>

text \<open>
  Modelled from the spec: the module \<open>contracts.schema\<close>, which declares \<open>StockData\<close>,
  \<open>StrategyConfig\<close>, \<open>TradeRecord\<close> and \<open>BacktestMetrics\<close>, is not part of the sources.
  The records below carry the fields that the engine reads and the keyword arguments with
  which it builds its results. \<open>StockData\<close> is used through its extensible scheme, so
  whatever else a caller's object holds is the \<open>more\<close> part. Dates are the
  \<open>YYYY-MM-DD\<close> strings the fetcher produces, in ascending order; parsing and formatting
  them back is the identity on such strings and is not modelled.

  The statistics that need a standard deviation, a covariance or a calendar
  (volatility, Sharpe ratio, average trade return, confidence ratio, alpha, beta,
  information ratio, the market's volatility, Sharpe ratio and drawdown, monthly returns,
  the date range) and the three rule texts are left out of \<open>BacktestMetrics\<close>: no
  statement here is about them and none of them can raise.
\<close>

record StockData =
  dates :: "string list"
  closes :: "real list"
  macd :: "real list"
  macd_signal :: "real list"
  volumes :: "int list"

record StrategyConfig =
  strategy_name :: string
  initial_capital_cfg :: real
  commission_cfg :: real
  trade_on_close :: bool
  position_type :: string

record TradeRecord =
  entry_date :: string
  exit_date :: string
  entry_price :: real
  exit_price :: real
  profit_loss :: real
  profit_loss_pct :: real
  duration_days :: int
  trade_type :: string

record BacktestMetrics =
  config :: StrategyConfig
  initial_capital_m :: real
  final_equity :: real
  total_trades :: nat
  win_rate :: real
  max_drawdown :: cell
  total_return :: real
  annual_return :: real
  cagr :: real
  market_total_return :: real
  market_annual_return :: real
  equity_curve :: "real list"
  market_equity :: "real list"
  drawdown_curve :: "real list"
  returns :: "real list"
  dates_m :: "string list"
  volumes_m :: "int list"
  trades :: "TradeRecord list"
  prices :: "real list"
  buy_signals :: "nat list"
  sell_signals :: "nat list"
  data_points :: nat

text \<open>The table \<open>df\<close> of \<open>run_backtest\<close>: three columns over a date index.\<close>

record frame =
  Close :: "real list"
  MACD :: "real list"
  Signal :: "real list"
  index :: "string list"


section \<open>The engine\<close>

text \<open>
  Names follow \<open>src/backtesting/engine.py\<close>. A local variable of \<open>run_backtest\<close> whose
  name is also a field of the result carries the suffix \<open>_v\<close>; each is a function of the
  table.
\<close>

definition initial_capital :: real where
  "initial_capital = 1000000"

definition commission :: real where
  "commission = 0.002"

definition config_v :: StrategyConfig where
  "config_v = \<lparr>strategy_name = ''MLStrategy'', initial_capital_cfg = initial_capital,
     commission_cfg = commission, trade_on_close = True, position_type = ''Long-only''\<rparr>"

text \<open>
  \<open>pd.DataFrame({...}, index=...)\<close> fits each column to the index: a list as long as the
  index is taken as it is, a list of one element is repeated to the length of the index
  (also to length 0), and any other length raises \<open>ValueError\<close>. \<open>pd.to_datetime\<close> raises
  a \<open>ValueError\<close> of its own on a string it cannot read as a date; the dates are taken to
  be readable, as the fetcher's are.
\<close>

definition broadcast :: "nat \<Rightarrow> 'a list \<Rightarrow> 'a list option" where
  "broadcast n xs =
     (if length xs = n then Some xs
      else if length xs = 1 then Some (replicate n (hd xs))
      else None)"

definition DataFrame :: "'a StockData_scheme \<Rightarrow> error + frame" where
  "DataFrame data =
     (case broadcast (length (dates data)) (closes data) of
        None \<Rightarrow> Inl ValueError
      | Some c \<Rightarrow>
          (case broadcast (length (dates data)) (macd data) of
             None \<Rightarrow> Inl ValueError
           | Some m \<Rightarrow>
               (case broadcast (length (dates data)) (macd_signal data) of
                  None \<Rightarrow> Inl ValueError
                | Some g \<Rightarrow> Inr \<lparr>Close = c, MACD = m, Signal = g, index = dates data\<rparr>)))"

definition len :: "frame \<Rightarrow> nat" where
  "len df = length (index df)"

subsection \<open>Signals, positions and returns (lines 32 to 40)\<close>

definition Target :: "frame \<Rightarrow> int list" where
  "Target df = map2 (\<lambda>m s. if m > s then 1 else 0) (MACD df) (Signal df)"

definition Position :: "frame \<Rightarrow> real list" where
  "Position df = fillna 0 (shift1 (map of_int (Target df)))"

definition Returns :: "frame \<Rightarrow> cell list" where
  "Returns df = pct_change (Close df)"

text \<open>\<open>df['Strategy_Returns']\<close> is assigned twice; \<open>Strategy_Returns_raw\<close> is the value of
  line 35, \<open>Strategy_Returns\<close> the final one of line 40.\<close>

definition Strategy_Returns_raw :: "frame \<Rightarrow> cell list" where
  "Strategy_Returns_raw df = map2 (\<lambda>p r. nan2 (*) (Some p) r) (Position df) (Returns df)"

definition Position_Change :: "frame \<Rightarrow> cell list" where
  "Position_Change df = map (map_option abs) (diff (Position df))"

definition Commission_Cost :: "frame \<Rightarrow> cell list" where
  "Commission_Cost df = map (map_option (\<lambda>x. x * commission)) (Position_Change df)"

definition Strategy_Returns :: "frame \<Rightarrow> cell list" where
  "Strategy_Returns df = map2 (nan2 (-)) (Strategy_Returns_raw df) (Commission_Cost df)"

subsection \<open>Equity, benchmark and scalar statistics (lines 43 to 84)\<close>

definition cumulative_returns :: "frame \<Rightarrow> real list" where
  "cumulative_returns df = cumprod (map (\<lambda>r. 1 + r) (fillna 0 (Strategy_Returns df)))"

definition equity_curve_v :: "frame \<Rightarrow> real list" where
  "equity_curve_v df = map (\<lambda>c. initial_capital * c) (cumulative_returns df)"

definition final_equity_v :: "frame \<Rightarrow> real" where
  "final_equity_v df = last (equity_curve_v df)"

definition market_returns :: "frame \<Rightarrow> real list" where
  "market_returns df = fillna 0 (Returns df)"

definition market_cumulative :: "frame \<Rightarrow> real list" where
  "market_cumulative df = cumprod (map (\<lambda>r. 1 + r) (market_returns df))"

definition market_equity_v :: "frame \<Rightarrow> real list" where
  "market_equity_v df = map (\<lambda>c. initial_capital * c) (market_cumulative df)"

definition years :: "frame \<Rightarrow> real" where
  "years df = real (len df) / 252"

definition total_return_v :: "frame \<Rightarrow> real" where
  "total_return_v df = (final_equity_v df / initial_capital - 1) * 100"

definition annualised :: "frame \<Rightarrow> real \<Rightarrow> error + pynum" where
  "annualised df final =
     (if years df > 0
      then map_sum id (pynum_map (\<lambda>p. (p - 1) * 100))
             (float_pow (final / initial_capital) (1 / years df))
      else Inr (PyFloat 0))"

definition cagr_v :: "frame \<Rightarrow> error + pynum" where
  "cagr_v df = annualised df (final_equity_v df)"

definition winning_trades :: "frame \<Rightarrow> nat" where
  "winning_trades df =
     length (filter (\<lambda>c. case c of None \<Rightarrow> False | Some r \<Rightarrow> r > 0) (Strategy_Returns df))"

definition total_active_trades :: "frame \<Rightarrow> nat" where
  "total_active_trades df =
     length (filter (\<lambda>c. case c of None \<Rightarrow> True | Some r \<Rightarrow> r \<noteq> 0) (Strategy_Returns df))"

definition win_rate_v :: "frame \<Rightarrow> real" where
  "win_rate_v df =
     (if total_active_trades df > 0
      then real (winning_trades df) / real (total_active_trades df) * 100
      else 0)"

definition peak :: "frame \<Rightarrow> real list" where
  "peak df = expanding_max (map (\<lambda>c. initial_capital * c) (cumulative_returns df))"

definition drawdown :: "frame \<Rightarrow> real list" where
  "drawdown df =
     map2 (\<lambda>e p. (e / p - 1) * 100)
       (map (\<lambda>c. initial_capital * c) (cumulative_returns df)) (peak df)"

definition max_drawdown_v :: "frame \<Rightarrow> cell" where
  "max_drawdown_v df = series_min (drawdown df)"

definition market_total_return_v :: "frame \<Rightarrow> real" where
  "market_total_return_v df = (last (market_equity_v df) / initial_capital - 1) * 100"

definition market_annual_return_v :: "frame \<Rightarrow> error + pynum" where
  "market_annual_return_v df = annualised df (last (market_equity_v df))"

subsection \<open>Trade history (lines 107 to 162)\<close>

text \<open>The variables the scan updates; \<open>entry_price_v\<close>, \<open>trades_v\<close>, \<open>buy_signals_v\<close> and
  \<open>sell_signals_v\<close> are the locals \<open>entry_price\<close>, \<open>trades\<close>, \<open>buy_signals\<close> and
  \<open>sell_signals\<close>.\<close>

record loop_state =
  position_open :: bool
  entry_idx :: nat
  entry_price_v :: real
  trades_v :: "TradeRecord list"
  buy_signals_v :: "nat list"
  sell_signals_v :: "nat list"

definition loop_init :: loop_state where
  "loop_init = \<lparr>position_open = False, entry_idx = 0, entry_price_v = 0, trades_v = [],
     buy_signals_v = [], sell_signals_v = []\<rparr>"

text \<open>The record appended by the \<open>elif\<close> branch at row \<open>idx\<close> (lines 128 to 142).\<close>

definition exit_record :: "frame \<Rightarrow> loop_state \<Rightarrow> nat \<Rightarrow> TradeRecord" where
  "exit_record df s idx =
     (let exit_price_v = Close df ! idx;
          profit_loss_v = (exit_price_v - entry_price_v s) - (entry_price_v s * commission * 2);
          profit_loss_pct_v = (profit_loss_v / entry_price_v s) * 100;
          duration = int idx - int (entry_idx s)
      in \<lparr>entry_date = index df ! entry_idx s, exit_date = index df ! idx,
           entry_price = entry_price_v s, exit_price = exit_price_v,
           profit_loss = profit_loss_v, profit_loss_pct = profit_loss_pct_v,
           duration_days = duration, trade_type = ''LONG''\<rparr>)"

text \<open>One pass of the loop body for row \<open>idx\<close>.\<close>

definition loop_body :: "frame \<Rightarrow> nat \<Rightarrow> loop_state \<Rightarrow> loop_state" where
  "loop_body df idx s =
     (let current_signal = Target df ! idx in
      if current_signal = 1 \<and> \<not> position_open s then
        s\<lparr>position_open := True, entry_idx := idx, entry_price_v := Close df ! idx,
          buy_signals_v := buy_signals_v s @ [idx]\<rparr>
      else if current_signal = 0 \<and> position_open s then
        s\<lparr>position_open := False, trades_v := trades_v s @ [exit_record df s idx],
          sell_signals_v := sell_signals_v s @ [idx]\<rparr>
      else s)"

definition trade_loop :: "frame \<Rightarrow> loop_state" where
  "trade_loop df = fold (loop_body df) [0..<len df] loop_init"

text \<open>The record appended after the loop for a position that is still open
  (lines 147 to 161); \<open>iloc[-1]\<close> and \<open>index[-1]\<close> read the last row.\<close>

definition final_record :: "frame \<Rightarrow> loop_state \<Rightarrow> TradeRecord" where
  "final_record df s =
     (let exit_price_v = last (Close df);
          profit_loss_v = (exit_price_v - entry_price_v s) - (entry_price_v s * commission * 2);
          profit_loss_pct_v = (profit_loss_v / entry_price_v s) * 100;
          duration = int (len df) - 1 - int (entry_idx s)
      in \<lparr>entry_date = index df ! entry_idx s, exit_date = last (index df),
           entry_price = entry_price_v s, exit_price = exit_price_v,
           profit_loss = profit_loss_v, profit_loss_pct = profit_loss_pct_v,
           duration_days = duration, trade_type = ''LONG''\<rparr>)"

definition close_open_position :: "frame \<Rightarrow> loop_state \<Rightarrow> loop_state" where
  "close_open_position df s =
     (if position_open s then
        s\<lparr>trades_v := trades_v s @ [final_record df s],
          sell_signals_v := sell_signals_v s @ [len df - 1]\<rparr>
      else s)"

definition trade_history :: "frame \<Rightarrow> loop_state" where
  "trade_history df = close_open_position df (trade_loop df)"

subsection \<open>The whole run\<close>

text \<open>
  The statements that can raise, in the order of the source: the table constructor
  (line 25), \<open>equity_curve[-1]\<close> (line 45), the two powers (lines 58 and 78) and the
  conversions \<open>float(annual_return)\<close> and \<open>float(market_annual_return)\<close> in the
  \<open>return\<close> statement. Everything else is total. The report echoes the caller's own
  \<open>closes\<close>, \<open>dates\<close> and \<open>volumes\<close>, not the columns of the table.
\<close>

definition report :: "'a StockData_scheme \<Rightarrow> frame \<Rightarrow> real \<Rightarrow> real \<Rightarrow> BacktestMetrics" where
  "report data df annual market_annual =
     (let h = trade_history df in
      \<lparr>config = config_v,
       initial_capital_m = initial_capital,
       final_equity = final_equity_v df,
       total_trades = length (trades_v h),
       win_rate = win_rate_v df,
       max_drawdown = max_drawdown_v df,
       total_return = total_return_v df,
       annual_return = annual,
       cagr = annual,
       market_total_return = market_total_return_v df,
       market_annual_return = market_annual,
       equity_curve = equity_curve_v df,
       market_equity = market_equity_v df,
       drawdown_curve = drawdown df,
       returns = fillna 0 (Strategy_Returns df),
       dates_m = dates data,
       volumes_m = volumes data,
       trades = trades_v h,
       prices = closes data,
       buy_signals = buy_signals_v h,
       sell_signals = sell_signals_v h,
       data_points = len df\<rparr>)"

definition run_backtest :: "'a StockData_scheme \<Rightarrow> error + BacktestMetrics" where
  "run_backtest data =
     (case DataFrame data of
        Inl e \<Rightarrow> Inl e
      | Inr df \<Rightarrow>
          if equity_curve_v df = [] then Inl IndexError
          else
            (case cagr_v df of
               Inl e \<Rightarrow> Inl e
             | Inr c \<Rightarrow>
                 (case market_annual_return_v df of
                    Inl e \<Rightarrow> Inl e
                  | Inr mc \<Rightarrow>
                      (case py_float c of
                         Inl e \<Rightarrow> Inl e
                       | Inr annual \<Rightarrow>
                           (case py_float mc of
                              Inl e \<Rightarrow> Inl e
                            | Inr market_annual \<Rightarrow>
                                Inr (report data df annual market_annual))))))"


section \<open>Concrete inputs\<close>

text \<open>The scenario of the specification: five periods, one round trip.\<close>

definition scenario :: StockData where
  "scenario = \<lparr>dates = [''2024-01-01'', ''2024-01-02'', ''2024-01-03'', ''2024-01-04'',
       ''2024-01-05''],
     closes = [100, 100, 110, 110, 90], macd = [1, 1, 2, -1, -1],
     macd_signal = [0, 0, 1, 0, 0], volumes = [0, 0, 0, 0, 0]\<rparr>"

definition scenario_df :: frame where
  "scenario_df = \<lparr>Close = [100, 100, 110, 110, 90], MACD = [1, 1, 2, -1, -1],
     Signal = [0, 0, 1, 0, 0],
     index = [''2024-01-01'', ''2024-01-02'', ''2024-01-03'', ''2024-01-04'',
       ''2024-01-05'']\<rparr>"

definition scenario_report :: BacktestMetrics where
  "scenario_report = report scenario scenario_df
     (((final_equity_v scenario_df / initial_capital) powr (1 / years scenario_df) - 1) * 100)
     (((last (market_equity_v scenario_df) / initial_capital) powr (1 / years scenario_df) - 1) * 100)"

text \<open>Two periods, long from the first: the only defined return is a gain.\<close>

definition two_day :: StockData where
  "two_day = \<lparr>dates = [''2024-01-01'', ''2024-01-02''], closes = [100, 110],
     macd = [1, 1], macd_signal = [0, 0], volumes = [0, 0]\<rparr>"

definition two_day_df :: frame where
  "two_day_df = \<lparr>Close = [100, 110], MACD = [1, 1], Signal = [0, 0],
     index = [''2024-01-01'', ''2024-01-02'']\<rparr>"

definition two_day_report :: BacktestMetrics where
  "two_day_report = report two_day two_day_df
     (((final_equity_v two_day_df / initial_capital) powr (1 / years two_day_df) - 1) * 100)
     (((last (market_equity_v two_day_df) / initial_capital) powr (1 / years two_day_df) - 1) * 100)"

text \<open>An input without periods, one whose MACD series has a single value for two dates,
  and one whose MACD series has three values for two dates.\<close>

definition no_periods :: StockData where
  "no_periods = \<lparr>dates = [], closes = [], macd = [], macd_signal = [], volumes = []\<rparr>"

definition short_macd :: StockData where
  "short_macd = \<lparr>dates = [''2024-01-01'', ''2024-01-02''], closes = [100, 110],
     macd = [1], macd_signal = [0, 0], volumes = [0, 0]\<rparr>"

definition long_macd :: StockData where
  "long_macd = \<lparr>dates = [''2024-01-01'', ''2024-01-02''], closes = [100, 110],
     macd = [1, 1, 1], macd_signal = [0, 0], volumes = [0, 0]\<rparr>"

text \<open>A caller's object that carries a capital and a commission of its own next to the
  series.\<close>

record StockData_with_config = StockData +
  capital_in :: real
  commission_in :: real

definition scenario_with_config :: StockData_with_config where
  "scenario_with_config = \<lparr>dates = dates scenario, closes = closes scenario,
     macd = macd scenario, macd_signal = macd_signal scenario, volumes = volumes scenario,
     capital_in = 5, commission_in = 1 / 2\<rparr>"

text \<open>Three periods with the MACD above its signal line throughout.\<close>

definition always_long :: StockData where
  "always_long = \<lparr>dates = [''2024-01-01'', ''2024-01-02'', ''2024-01-03''],
     closes = [100, 110, 121], macd = [1, 1, 1], macd_signal = [0, 0, 0],
     volumes = [0, 0, 0]\<rparr>"

definition always_long_df :: frame where
  "always_long_df = \<lparr>Close = [100, 110, 121], MACD = [1, 1, 1], Signal = [0, 0, 0],
     index = [''2024-01-01'', ''2024-01-02'', ''2024-01-03'']\<rparr>"

definition always_long_report :: BacktestMetrics where
  "always_long_report = report always_long always_long_df
     (((final_equity_v always_long_df / initial_capital) powr (1 / years always_long_df) - 1)
        * 100)
     (((last (market_equity_v always_long_df) / initial_capital)
          powr (1 / years always_long_df) - 1) * 100)"

text \<open>Two periods in which the price rises a hundred thousandfold while the position is
  held.\<close>

definition surge_after_entry :: StockData where
  "surge_after_entry = \<lparr>dates = [''2024-01-01'', ''2024-01-02''], closes = [1, 100000],
     macd = [1, 1], macd_signal = [0, 0], volumes = [0, 0]\<rparr>"

text \<open>Five periods in which the price collapses on the one day the position is held.\<close>

definition crash_after_entry :: StockData where
  "crash_after_entry = \<lparr>dates = [''2024-01-01'', ''2024-01-02'', ''2024-01-03'',
       ''2024-01-04'', ''2024-01-05''],
     closes = [1000, 1, 1, 1, 1], macd = [1, 0, 0, 0, 0], macd_signal = [0, 0, 0, 0, 0],
     volumes = [0, 0, 0, 0, 0]\<rparr>"

definition crash_after_entry_df :: frame where
  "crash_after_entry_df = \<lparr>Close = [1000, 1, 1, 1, 1], MACD = [1, 0, 0, 0, 0],
     Signal = [0, 0, 0, 0, 0],
     index = [''2024-01-01'', ''2024-01-02'', ''2024-01-03'', ''2024-01-04'',
       ''2024-01-05'']\<rparr>"


section \<open>The ledger as the specification words it\<close>

text \<open>
  The ledger in the words of the specification, for comparison with the scan of the
  source. \<open>first_from ts v i\<close> is the first period from \<open>i\<close> on whose target is \<open>v\<close>.
  Starting flat at period \<open>i\<close>, a trade opens at the first period with target 1; it closes
  at the next period with target 0, and the search for the next entry resumes after that
  period; when no such period is left the trade is closed at the last period.
  \<open>spec_ledger\<close> lists the (entry index, exit index) pairs, \<open>spec_trade\<close> is the record
  the specification asks for such a pair.
\<close>

definition first_from :: "int list \<Rightarrow> int \<Rightarrow> nat \<Rightarrow> nat option" where
  "first_from ts v i = find (\<lambda>j. ts ! j = v) [i..<length ts]"

function spec_ledger :: "int list \<Rightarrow> nat \<Rightarrow> (nat \<times> nat) list" where
  "spec_ledger ts i =
     (case first_from ts 1 i of
        None \<Rightarrow> []
      | Some e \<Rightarrow>
          (case first_from ts 0 (Suc e) of
             None \<Rightarrow> [(e, length ts - 1)]
           | Some x \<Rightarrow> (e, x) # spec_ledger ts (Suc x)))"
  by pat_completeness auto
termination
  by (relation "measure (\<lambda>(ts, i). length ts - i)")
    (auto simp: first_from_def find_Some_iff)

definition spec_trade :: "frame \<Rightarrow> nat \<times> nat \<Rightarrow> TradeRecord" where
  "spec_trade df p =
     (let entryIndex = fst p; exitIndex = snd p;
          EntryPrice = Close df ! entryIndex; ExitPrice = Close df ! exitIndex;
          PL = (ExitPrice - EntryPrice) - EntryPrice * commission * 2
      in \<lparr>entry_date = index df ! entryIndex, exit_date = index df ! exitIndex,
           entry_price = EntryPrice, exit_price = ExitPrice, profit_loss = PL,
           profit_loss_pct = PL / EntryPrice * 100,
           duration_days = int exitIndex - int entryIndex, trade_type = ''LONG''\<rparr>)"

text \<open>Two notions for the comparison: the scan resumed at row \<open>i\<close> in state \<open>s\<close> and
  finished, and a state \<open>r\<close> whose three lists are those of \<open>s\<close> extended by the trades of
  the pairs \<open>ps\<close>, the entries \<open>bs\<close> and the exits of \<open>ps\<close>.\<close>

definition rest_of_history :: "frame \<Rightarrow> nat \<Rightarrow> loop_state \<Rightarrow> loop_state" where
  "rest_of_history df i s = close_open_position df (fold (loop_body df) [i..<len df] s)"

definition extends :: "frame \<Rightarrow> loop_state \<Rightarrow> (nat \<times> nat) list \<Rightarrow> nat list \<Rightarrow> loop_state \<Rightarrow> bool" where
  "extends df s ps bs r \<longleftrightarrow>
     trades_v r = trades_v s @ map (spec_trade df) ps
     \<and> buy_signals_v r = buy_signals_v s @ bs
     \<and> sell_signals_v r = sell_signals_v s @ map snd ps"


section \<open>Columns, row by row\<close>

text \<open>
  The lemmas and theorems below speak of the columns \<open>Close\<close>, \<open>MACD\<close> and \<open>Signal\<close> of
  the table and of its number of rows \<open>len\<close>, which is the number of dates. How the columns
  come from the input series is \<open>DataFrame_columns\<close>.
\<close>

lemma shift1_length [simp]: "length (shift1 xs) = length xs"
  by (cases xs) (simp_all add: shift1_def)

lemma shift1_nonempty: "xs \<noteq> [] \<Longrightarrow> shift1 xs = None # map Some (butlast xs)"
  by (cases xs) (simp_all add: shift1_def)

lemma shift1_nth_0: "0 < length xs \<Longrightarrow> shift1 xs ! 0 = None"
  by (simp add: shift1_nonempty)

lemma shift1_nth_Suc:
  assumes "Suc t < length xs"
  shows "shift1 xs ! Suc t = Some (xs ! t)"
proof -
  from assms have "xs \<noteq> []" by auto
  then have "shift1 xs = None # map Some (butlast xs)" by (rule shift1_nonempty)
  with assms show ?thesis by (simp add: nth_butlast)
qed

lemma fillna_length [simp]: "length (fillna v xs) = length xs"
  by (simp add: fillna_def)

lemma fillna_nth: "t < length xs \<Longrightarrow> fillna v xs ! t = (case xs ! t of None \<Rightarrow> v | Some x \<Rightarrow> x)"
  by (simp add: fillna_def)

lemma pct_change_length [simp]: "length (pct_change xs) = length xs"
  by (simp add: pct_change_def)

lemma pct_change_nth_0: "0 < length xs \<Longrightarrow> pct_change xs ! 0 = None"
  by (simp add: pct_change_def shift1_nth_0 nan2_def)

lemma pct_change_nth_Suc:
  "Suc t < length xs \<Longrightarrow> pct_change xs ! Suc t = Some (xs ! Suc t / xs ! t - 1)"
  by (simp add: pct_change_def shift1_nth_Suc nan2_def)

lemma diff_length [simp]: "length (diff xs) = length xs"
  by (simp add: diff_def)

lemma diff_nth_0: "0 < length xs \<Longrightarrow> diff xs ! 0 = None"
  by (simp add: diff_def shift1_nth_0 nan2_def)

lemma diff_nth_Suc: "Suc t < length xs \<Longrightarrow> diff xs ! Suc t = Some (xs ! Suc t - xs ! t)"
  by (simp add: diff_def shift1_nth_Suc nan2_def)

lemma broadcast_length: "broadcast n xs = Some ys \<Longrightarrow> length ys = n"
  by (auto simp: broadcast_def split: if_splits)

lemma DataFrame_Inr:
  assumes "DataFrame data = Inr df"
  shows "length (Close df) = len df" and "length (MACD df) = len df"
    and "length (Signal df) = len df" and "index df = dates data"
  using assms
  by (auto simp: DataFrame_def len_def split: option.splits dest: broadcast_length)

text \<open>Each column of the table is its input series fitted to the number of dates; for
  aligned series the columns are the input series themselves.\<close>

lemma DataFrame_columns:
  assumes "DataFrame data = Inr df"
  shows "broadcast (length (dates data)) (closes data) = Some (Close df)"
    and "broadcast (length (dates data)) (macd data) = Some (MACD df)"
    and "broadcast (length (dates data)) (macd_signal data) = Some (Signal df)"
    and "len df = length (dates data)"
  using assms by (auto simp: DataFrame_def len_def split: option.splits)

lemma DataFrame_aligned:
  assumes "length (closes data) = length (dates data)"
    and "length (macd data) = length (dates data)"
    and "length (macd_signal data) = length (dates data)"
  shows "DataFrame data =
    Inr \<lparr>Close = closes data, MACD = macd data, Signal = macd_signal data,
         index = dates data\<rparr>"
  using assms by (simp add: DataFrame_def broadcast_def)

lemma Target_length: "DataFrame data = Inr df \<Longrightarrow> length (Target df) = len df"
  by (simp add: Target_def DataFrame_Inr)

lemma Target_nth:
  "DataFrame data = Inr df \<Longrightarrow> t < len df \<Longrightarrow>
   Target df ! t = (if MACD df ! t > Signal df ! t then 1 else 0)"
  by (simp add: Target_def DataFrame_Inr)

lemma Position_length: "DataFrame data = Inr df \<Longrightarrow> length (Position df) = len df"
  by (simp add: Position_def Target_length)

lemma Position_nth_0:
  assumes "DataFrame data = Inr df" and "0 < len df"
  shows "Position df ! 0 = 0"
proof -
  have "0 < length (map real_of_int (Target df))"
    using assms by (simp add: Target_length)
  then have "shift1 (map real_of_int (Target df)) ! 0 = None"
    by (rule shift1_nth_0)
  with assms show ?thesis
    by (simp add: Position_def fillna_nth Target_length)
qed

lemma Position_nth_Suc:
  "DataFrame data = Inr df \<Longrightarrow> Suc t < len df \<Longrightarrow>
   Position df ! Suc t = of_int (Target df ! t)"
  by (simp add: Position_def fillna_nth Target_length shift1_nth_Suc)

lemma Returns_length: "DataFrame data = Inr df \<Longrightarrow> length (Returns df) = len df"
  by (simp add: Returns_def DataFrame_Inr)

lemma Strategy_Returns_length:
  "DataFrame data = Inr df \<Longrightarrow> length (Strategy_Returns df) = len df"
  by (simp add: Strategy_Returns_def Strategy_Returns_raw_def Commission_Cost_def
      Position_Change_def Position_length Returns_length)

lemma Strategy_Returns_nth_0:
  "DataFrame data = Inr df \<Longrightarrow> 0 < len df \<Longrightarrow> Strategy_Returns df ! 0 = None"
  by (simp add: Strategy_Returns_def Strategy_Returns_raw_def Commission_Cost_def
      Position_Change_def Position_length Returns_length Returns_def DataFrame_Inr
      pct_change_nth_0 nan2_def)

lemma Strategy_Returns_nth_Suc:
  "DataFrame data = Inr df \<Longrightarrow> Suc t < len df \<Longrightarrow>
   Strategy_Returns df ! Suc t =
     Some (Position df ! Suc t * (Close df ! Suc t / Close df ! t - 1)
           - \<bar>Position df ! Suc t - Position df ! t\<bar> * commission)"
  by (simp add: Strategy_Returns_def Strategy_Returns_raw_def Commission_Cost_def
      Position_Change_def Position_length Returns_length Returns_def DataFrame_Inr
      pct_change_nth_Suc diff_nth_Suc nan2_def)

lemma scenario_frame: "DataFrame scenario = Inr scenario_df"
  by (simp add: DataFrame_def broadcast_def scenario_def scenario_df_def)

lemma scenario_len: "len scenario_df = 5"
  by (simp add: len_def scenario_df_def)

lemma scenario_columns:
  "Close scenario_df = [100, 100, 110, 110, 90]"
  "MACD scenario_df = [1, 1, 2, - 1, - 1]"
  "Signal scenario_df = [0, 0, 1, 0, 0]"
  by (simp_all add: scenario_df_def)

lemma scenario_Target: "Target scenario_df = [1, 1, 1, 0, 0]"
  by (simp add: Target_def scenario_df_def)

lemma scenario_Position: "Position scenario_df = [0, 1, 1, 1, 0]"
  by (simp add: Position_def scenario_Target shift1_def fillna_def)

lemma scenario_Returns:
  "Returns scenario_df = [None, Some 0, Some (1 / 10), Some 0, Some (- (2 / 11))]"
  by (simp add: Returns_def pct_change_def shift1_def nan2_def scenario_df_def)

lemma scenario_Commission_Cost:
  "Commission_Cost scenario_df = [None, Some (1 / 500), Some 0, Some 0, Some (1 / 500)]"
  by (simp add: Commission_Cost_def Position_Change_def diff_def scenario_Position shift1_def
      nan2_def commission_def)

lemma scenario_Strategy_Returns:
  "Strategy_Returns scenario_df =
     [None, Some (- (1 / 500)), Some (1 / 10), Some 0, Some (- (1 / 500))]"
  by (simp add: Strategy_Returns_def Strategy_Returns_raw_def scenario_Position
      scenario_Returns scenario_Commission_Cost nan2_def)


section \<open>The translator\<close>

text \<open>
  Claim C1. For an input from which the table is built, the close, MACD and signal columns
  are the input series fitted to the number of dates (for aligned series: the series
  themselves), and the three columns of the translator are, row by row: \<open>Target[t]\<close> is 1
  when \<open>MACD[t] > Signal[t]\<close> and 0 otherwise, so a tie is flat; \<open>Position[0] = 0\<close> and
  \<open>Position[t] = Target[t-1]\<close> for \<open>t > 0\<close>; and for \<open>t > 0\<close> the net strategy return is
  \<open>Position[t] * (Close[t] / Close[t-1] - 1) - |Position[t] - Position[t-1]| * commission\<close>.
  In row 0, where there is no previous close, the column holds NaN.
\<close>

theorem translator_contract:
  assumes "DataFrame data = Inr df" and "t < len df"
    and "0 \<notin> set (Close df)"
  shows "Target df ! t = (if MACD df ! t > Signal df ! t then 1 else 0)
       \<and> Position df ! t = (if t = 0 then 0 else of_int (Target df ! (t - 1)))
       \<and> Strategy_Returns df ! t =
           (if t = 0 then None
            else Some (Position df ! t * (Close df ! t / Close df ! (t - 1) - 1)
                       - \<bar>Position df ! t - Position df ! (t - 1)\<bar> * commission))
       \<and> broadcast (length (dates data)) (closes data) = Some (Close df)
       \<and> broadcast (length (dates data)) (macd data) = Some (MACD df)
       \<and> broadcast (length (dates data)) (macd_signal data) = Some (Signal df)"
proof (cases t)
  case 0
  with assms show ?thesis
    by (simp add: Target_nth Position_nth_0 Strategy_Returns_nth_0 DataFrame_columns)
next
  case (Suc k)
  with assms show ?thesis
    by (simp add: Target_nth Position_nth_Suc Strategy_Returns_nth_Suc DataFrame_columns)
qed

theorem translator_contract_witness:
  "DataFrame scenario = Inr scenario_df \<and> 2 < len scenario_df
   \<and> 0 \<notin> set (Close scenario_df)
   \<and> Target scenario_df ! 2 = 1 \<and> Position scenario_df ! 2 = 1
   \<and> Strategy_Returns scenario_df ! 2 = Some (1 / 10)
   \<and> Close scenario_df = closes scenario \<and> MACD scenario_df = macd scenario
   \<and> Signal scenario_df = macd_signal scenario"
proof -
  have h1: "DataFrame scenario = Inr scenario_df" by (rule scenario_frame)
  have h2: "2 < len scenario_df" by (simp add: scenario_len)
  have h3: "0 \<notin> set (Close scenario_df)" by (simp add: scenario_columns)
  from translator_contract [OF h1 h2 h3] h1 h2 h3 show ?thesis
    by (simp add: scenario_columns scenario_Position commission_def scenario_def)
qed

section \<open>Equity\<close>

lemma cumprod_from_length [simp]: "length (cumprod_from a xs) = length xs"
  by (induction xs arbitrary: a) simp_all

lemma cumprod_from_nth:
  "t < length xs \<Longrightarrow> cumprod_from a xs ! t = a * (\<Prod>i\<le>t. xs ! i)"
proof (induction xs arbitrary: a t)
  case Nil
  then show ?case by simp
next
  case (Cons x xs)
  show ?case
  proof (cases t)
    case 0
    then show ?thesis by simp
  next
    case (Suc k)
    with Cons.prems have "k < length xs" by simp
    then have "cumprod_from (a * x) xs ! k = a * x * (\<Prod>i\<le>k. xs ! i)"
      by (rule Cons.IH)
    with Suc show ?thesis
      by (simp add: prod.atMost_Suc_shift del: prod.atMost_Suc)
  qed
qed

lemma cumprod_nth: "t < length xs \<Longrightarrow> cumprod xs ! t = (\<Prod>i\<le>t. xs ! i)"
  by (simp add: cumprod_def cumprod_from_nth)

lemma equity_curve_v_length:
  "DataFrame data = Inr df \<Longrightarrow> length (equity_curve_v df) = len df"
  by (simp add: equity_curve_v_def cumulative_returns_def cumprod_def Strategy_Returns_length)

lemma equity_curve_v_nth:
  assumes "DataFrame data = Inr df" and "t < len df"
  shows "equity_curve_v df ! t =
    initial_capital * (\<Prod>i\<le>t. 1 + fillna 0 (Strategy_Returns df) ! i)"
proof -
  let ?xs = "map (\<lambda>r. 1 + r) (fillna 0 (Strategy_Returns df))"
  have len: "length ?xs = len df"
    using assms(1) by (simp add: Strategy_Returns_length)
  have "equity_curve_v df ! t = initial_capital * (cumprod ?xs ! t)"
    using assms(2) len by (simp add: equity_curve_v_def cumulative_returns_def cumprod_def)
  also have "cumprod ?xs ! t = (\<Prod>i\<le>t. ?xs ! i)"
    using assms(2) len by (intro cumprod_nth) simp
  also have "\<dots> = (\<Prod>i\<le>t. 1 + fillna 0 (Strategy_Returns df) ! i)"
    using assms(2) len by (intro prod.cong) simp_all
  finally show ?thesis .
qed

lemma run_backtest_Inr:
  assumes "run_backtest data = Inr m"
  obtains df annual market_annual where "DataFrame data = Inr df"
    and "equity_curve_v df \<noteq> []"
    and "cagr_v df = Inr (PyFloat annual)"
    and "market_annual_return_v df = Inr (PyFloat market_annual)"
    and "m = report data df annual market_annual"
  using assms
  by (auto simp: run_backtest_def py_float_def split: sum.splits if_splits pynum.splits)

text \<open>
  A power of a base between 0 and 2 with an exponent of at most 252 stays far below the
  range of a double. So an input with a non-empty table whose final equity, strategy and
  benchmark, lies between 0 and twice the capital gets its report.
\<close>

lemma float_pow_moderate:
  assumes "0 < x" and "x \<le> 2" and "0 < y" and "y \<le> 252"
  shows "float_pow x y = Inr (PyFloat (x powr y))"
proof -
  have "x powr y \<le> 2 powr y"
    using assms(1,2,3) by (intro powr_mono2) simp_all
  also have "\<dots> \<le> 2 powr 252"
    using assms(4) by (intro powr_mono) simp_all
  also have "\<dots> = 2 ^ 252" by simp
  also have "\<dots> < double_limit" by (simp add: double_limit_def)
  finally have "x powr y < double_limit" .
  with assms(1,3) show ?thesis by (simp add: float_pow_def)
qed

lemma annualised_moderate:
  assumes "0 < len df" and "0 \<le> final" and "final \<le> 2 * initial_capital"
  shows "annualised df final =
    Inr (PyFloat (((final / initial_capital) powr (1 / years df) - 1) * 100))"
proof -
  have y: "0 < years df" using assms(1) by (simp add: years_def)
  have "1 \<le> real (len df)" using assms(1) by simp
  then have e: "0 < 1 / years df" "1 / years df \<le> 252"
    by (simp_all add: years_def field_simps)
  have x: "0 \<le> final / initial_capital" "final / initial_capital \<le> 2"
    using assms(2,3) by (simp_all add: initial_capital_def)
  show ?thesis
  proof (cases "final / initial_capital = 0")
    case True
    with y e show ?thesis
      by (simp add: annualised_def float_pow_def pynum_map_def)
  next
    case False
    with x(1) have "0 < final / initial_capital" by linarith
    then have "float_pow (final / initial_capital) (1 / years df) =
        Inr (PyFloat ((final / initial_capital) powr (1 / years df)))"
      using x(2) e by (rule float_pow_moderate)
    with y show ?thesis
      by (simp add: annualised_def pynum_map_def)
  qed
qed

lemma run_backtest_moderate:
  assumes "DataFrame data = Inr df" and "0 < len df"
    and "0 \<le> final_equity_v df" and "final_equity_v df \<le> 2 * initial_capital"
    and "0 \<le> last (market_equity_v df)"
    and "last (market_equity_v df) \<le> 2 * initial_capital"
  shows "run_backtest data =
    Inr (report data df
      (((final_equity_v df / initial_capital) powr (1 / years df) - 1) * 100)
      (((last (market_equity_v df) / initial_capital) powr (1 / years df) - 1) * 100))"
proof -
  have ne: "equity_curve_v df \<noteq> []"
    using equity_curve_v_length [OF assms(1)] assms(2) by auto
  have a: "cagr_v df =
      Inr (PyFloat (((final_equity_v df / initial_capital) powr (1 / years df) - 1) * 100))"
    unfolding cagr_v_def using assms(2,3,4) by (rule annualised_moderate)
  have b: "market_annual_return_v df =
      Inr (PyFloat (((last (market_equity_v df) / initial_capital) powr (1 / years df) - 1)
        * 100))"
    unfolding market_annual_return_v_def using assms(2,5,6) by (rule annualised_moderate)
  show ?thesis
    by (simp add: run_backtest_def assms(1) ne a b py_float_def)
qed

lemma scenario_equity_curve_v:
  "equity_curve_v scenario_df = [1000000, 998000, 1097800, 1097800, 5478022 / 5]"
  by (simp add: equity_curve_v_def cumulative_returns_def cumprod_def scenario_Strategy_Returns
      fillna_def initial_capital_def)

lemma scenario_market_equity_v:
  "market_equity_v scenario_df = [1000000, 1000000, 1100000, 1100000, 900000]"
  by (simp add: market_equity_v_def market_cumulative_def market_returns_def cumprod_def
      scenario_Returns fillna_def initial_capital_def)

lemma scenario_run: "run_backtest scenario = Inr scenario_report"
  unfolding scenario_report_def
  by (rule run_backtest_moderate [OF scenario_frame])
    (simp_all add: scenario_len final_equity_v_def scenario_equity_curve_v
      scenario_market_equity_v initial_capital_def)

text \<open>
  Claim C2. When a run on an input with non-zero closes returns its report, the reported
  equity curve has one value per period, and the value of period \<open>t\<close> is the initial
  capital times the product over \<open>i \<le> t\<close> of \<open>1 + NetStrategyReturn[i]\<close>, where the
  undefined return of the first row counts as zero; the reported final equity is the last
  value of that curve.
\<close>

theorem equity_consistency:
  assumes "run_backtest data = Inr m" and "DataFrame data = Inr df"
    and "t < len df" and "0 \<notin> set (Close df)"
  shows "equity_curve m ! t =
           initial_capital *
             (\<Prod>i\<le>t. 1 + (case Strategy_Returns df ! i of None \<Rightarrow> 0 | Some r \<Rightarrow> r))
       \<and> length (equity_curve m) = len df
       \<and> final_equity m = last (equity_curve m)"
proof -
  from assms(1) obtain df' annual market_annual where
    df': "DataFrame data = Inr df'" and m: "m = report data df' annual market_annual"
    by (rule run_backtest_Inr)
  from df' assms(2) have [simp]: "df' = df" by simp
  have eq: "equity_curve m = equity_curve_v df" and fe: "final_equity m = final_equity_v df"
    by (simp_all add: m report_def Let_def)
  have "(\<Prod>i\<le>t. 1 + fillna 0 (Strategy_Returns df) ! i) =
        (\<Prod>i\<le>t. 1 + (case Strategy_Returns df ! i of None \<Rightarrow> 0 | Some r \<Rightarrow> r))"
    using assms(2,3) by (intro prod.cong) (simp_all add: fillna_nth Strategy_Returns_length)
  with assms(2,3) show ?thesis
    by (simp add: eq fe equity_curve_v_nth equity_curve_v_length final_equity_v_def)
qed

theorem equity_consistency_witness:
  "run_backtest scenario = Inr scenario_report \<and> DataFrame scenario = Inr scenario_df
   \<and> 4 < len scenario_df \<and> 0 \<notin> set (Close scenario_df)
   \<and> length (equity_curve scenario_report) = 5
   \<and> final_equity scenario_report = 5478022 / 5"
proof -
  have h3: "4 < len scenario_df" by (simp add: scenario_len)
  have h4: "0 \<notin> set (Close scenario_df)" by (simp add: scenario_columns)
  have eq: "equity_curve scenario_report = equity_curve_v scenario_df"
    by (simp add: scenario_report_def report_def Let_def)
  from equity_consistency [OF scenario_run scenario_frame h3 h4] scenario_run scenario_frame h3 h4
  show ?thesis
    by (simp add: eq scenario_equity_curve_v scenario_def)
qed

section \<open>Drawdown\<close>

lemma expanding_max_from_length [simp]: "length (expanding_max_from a xs) = length xs"
  by (induction xs arbitrary: a) simp_all

lemma expanding_max_length [simp]: "length (expanding_max xs) = length xs"
  by (cases xs) (simp_all add: expanding_max_def)

lemma expanding_max_from_nth:
  "t < length xs \<Longrightarrow> expanding_max_from a xs ! t = Max (insert a (set (take (Suc t) xs)))"
proof (induction xs arbitrary: a t)
  case Nil
  then show ?case by simp
next
  case (Cons x xs)
  show ?case
  proof (cases t)
    case 0
    then show ?thesis by (simp add: max.commute)
  next
    case (Suc k)
    with Cons.prems have k: "k < length xs" by simp
    have "expanding_max_from (max a x) xs ! k = Max (insert (max a x) (set (take (Suc k) xs)))"
      using k by (rule Cons.IH)
    also have "\<dots> = max (max a x) (Max (set (take (Suc k) xs)))"
      using k by (cases xs) simp_all
    also have "\<dots> = Max (insert a (insert x (set (take (Suc k) xs))))"
      using k by (cases xs) (simp_all add: max.assoc)
    finally show ?thesis using Suc by simp
  qed
qed

lemma expanding_max_nth:
  assumes "t < length xs"
  shows "expanding_max xs ! t = Max (set (take (Suc t) xs))"
proof (cases xs)
  case Nil
  with assms show ?thesis by simp
next
  case (Cons x ys)
  show ?thesis
  proof (cases t)
    case 0
    with Cons show ?thesis by (simp add: expanding_max_def)
  next
    case (Suc k)
    with Cons assms have "k < length ys" by simp
    then have "expanding_max_from x ys ! k = Max (insert x (set (take (Suc k) ys)))"
      by (rule expanding_max_from_nth)
    with Cons Suc show ?thesis by (simp add: expanding_max_def)
  qed
qed

lemma series_min_nonempty:
  assumes "xs \<noteq> []"
  shows "series_min xs = Some (Min (set xs))"
proof (cases xs)
  case Nil
  with assms show ?thesis by simp
next
  case (Cons x ys)
  have "fold min ys x = Min (set (x # ys))" by (rule Min.set_eq_fold [symmetric])
  with Cons show ?thesis by (simp add: series_min_def)
qed

lemma equity_curve_v_0:
  assumes "DataFrame data = Inr df" and "0 < len df"
  shows "equity_curve_v df ! 0 = initial_capital"
  using assms by (simp add: equity_curve_v_nth fillna_nth Strategy_Returns_length Strategy_Returns_nth_0)

lemma peak_nth:
  assumes "DataFrame data = Inr df" and "t < len df"
  shows "peak df ! t = Max (set (take (Suc t) (equity_curve_v df)))"
proof -
  have "peak df = expanding_max (equity_curve_v df)"
    by (simp add: peak_def equity_curve_v_def)
  with assms show ?thesis
    by (simp add: expanding_max_nth equity_curve_v_length)
qed

lemma peak_bounds:
  assumes "DataFrame data = Inr df" and "t < len df"
  shows "equity_curve_v df ! t \<le> peak df ! t" and "initial_capital \<le> peak df ! t"
proof -
  let ?S = "set (take (Suc t) (equity_curve_v df))"
  have len: "length (equity_curve_v df) = len df"
    using assms(1) by (rule equity_curve_v_length)
  have "take (Suc t) (equity_curve_v df) ! t \<in> ?S"
    using assms(2) len by (intro nth_mem) simp
  then have "equity_curve_v df ! t \<in> ?S" by simp
  then show "equity_curve_v df ! t \<le> peak df ! t"
    using assms by (simp add: peak_nth)
  have "take (Suc t) (equity_curve_v df) ! 0 \<in> ?S"
    using assms(2) len by (intro nth_mem) simp
  then have "equity_curve_v df ! 0 \<in> ?S" by simp
  moreover have "equity_curve_v df ! 0 = initial_capital"
    using assms by (intro equity_curve_v_0) auto
  ultimately show "initial_capital \<le> peak df ! t"
    using assms by (simp add: peak_nth)
qed

lemma drawdown_length:
  "DataFrame data = Inr df \<Longrightarrow> length (drawdown df) = len df"
  using equity_curve_v_length [of data df]
  by (simp add: drawdown_def peak_def equity_curve_v_def)

lemma drawdown_nth:
  assumes "DataFrame data = Inr df" and "t < len df"
  shows "drawdown df ! t = (equity_curve_v df ! t / peak df ! t - 1) * 100"
proof -
  have "drawdown df = map2 (\<lambda>e p. (e / p - 1) * 100) (equity_curve_v df) (peak df)"
    by (simp add: drawdown_def equity_curve_v_def)
  moreover have "length (peak df) = len df"
    using equity_curve_v_length [OF assms(1)] by (simp add: peak_def equity_curve_v_def)
  ultimately show ?thesis
    using assms equity_curve_v_length [OF assms(1)] by simp
qed

lemma drawdown_le_0:
  assumes "DataFrame data = Inr df" and "t < len df"
  shows "drawdown df ! t \<le> 0"
proof -
  have pos: "0 < peak df ! t"
    using peak_bounds(2) [OF assms] by (simp add: initial_capital_def)
  have "equity_curve_v df ! t / peak df ! t \<le> 1"
    using peak_bounds(1) [OF assms] pos by simp
  then have "(equity_curve_v df ! t / peak df ! t - 1) * 100 \<le> 0"
    by (simp only: mult_le_0_iff) simp
  then show ?thesis
    by (simp only: drawdown_nth [OF assms])
qed

text \<open>
  Claim C7, as the code has it. The reported drawdown is a percentage: when a run on an
  input with non-zero closes returns its report, then for every period \<open>t\<close> (there are as
  many as dates) \<open>Drawdown[t]\<close> is
  \<open>(Equity[t] / Peak[t] - 1) * 100\<close> with \<open>Peak[t]\<close> the largest of \<open>Equity[0..t]\<close>; it is
  never positive, it is 0 whenever \<open>Equity[t]\<close> is that running maximum, and the reported
  maximum drawdown is the least value of the drawdown curve.
\<close>

theorem drawdown_percent:
  assumes "run_backtest data = Inr m" and "t < length (dates data)"
    and "0 \<notin> set (closes data)"
  shows "drawdown_curve m ! t =
           (equity_curve m ! t / Max (set (take (Suc t) (equity_curve m))) - 1) * 100
       \<and> drawdown_curve m ! t \<le> 0
       \<and> (equity_curve m ! t = Max (set (take (Suc t) (equity_curve m)))
            \<longrightarrow> drawdown_curve m ! t = 0)
       \<and> max_drawdown m = Some (Min (set (drawdown_curve m)))"
proof -
  from assms(1) obtain df annual market_annual where
    df: "DataFrame data = Inr df" and m: "m = report data df annual market_annual"
    by (rule run_backtest_Inr)
  have eq: "equity_curve m = equity_curve_v df" and dd: "drawdown_curve m = drawdown df"
    and md: "max_drawdown m = max_drawdown_v df"
    by (simp_all add: m report_def Let_def)
  have t: "t < len df"
    using assms(2) DataFrame_Inr(4) [OF df] by (simp only: len_def)
  have pk: "peak df ! t = Max (set (take (Suc t) (equity_curve_v df)))"
    using df t by (rule peak_nth)
  have pos: "0 < peak df ! t"
    using peak_bounds(2) [OF df t] by (simp add: initial_capital_def)
  have c1: "drawdown df ! t = (equity_curve_v df ! t / peak df ! t - 1) * 100"
    using df t by (rule drawdown_nth)
  have c2: "drawdown df ! t \<le> 0"
    using df t by (rule drawdown_le_0)
  have c3: "equity_curve_v df ! t = peak df ! t \<longrightarrow> drawdown df ! t = 0"
    using pos by (simp add: c1)
  have "drawdown df \<noteq> []"
    using drawdown_length [OF df] t by auto
  then have c4: "max_drawdown_v df = Some (Min (set (drawdown df)))"
    by (simp add: max_drawdown_v_def series_min_nonempty)
  from c1 c2 c3 c4 show ?thesis
    by (simp add: eq dd md pk)
qed

lemma scenario_drawdown: "drawdown scenario_df = [0, - (1 / 5), 0, 0, - (1 / 5)]"
proof -
  have "peak scenario_df = [1000000, 1000000, 1097800, 1097800, 1097800]"
    using scenario_equity_curve_v
    by (simp add: peak_def equity_curve_v_def expanding_max_def)
  then show ?thesis
    using scenario_equity_curve_v by (simp add: drawdown_def equity_curve_v_def)
qed

theorem drawdown_percent_witness:
  "run_backtest scenario = Inr scenario_report \<and> 4 < length (dates scenario)
   \<and> 0 \<notin> set (closes scenario)
   \<and> drawdown_curve scenario_report ! 4 = - (1 / 5)
   \<and> max_drawdown scenario_report = Some (- (1 / 5))"
proof -
  have h2: "4 < length (dates scenario)" by (simp add: scenario_def)
  have h3: "0 \<notin> set (closes scenario)" by (simp add: scenario_def)
  have dd: "drawdown_curve scenario_report = drawdown scenario_df"
    by (simp add: scenario_report_def report_def Let_def)
  from drawdown_percent [OF scenario_run h2 h3] scenario_run h2 h3 show ?thesis
    by (simp add: dd scenario_drawdown)
qed

theorem drawdown_fraction_counterexample:
  "run_backtest scenario = Inr scenario_report
   \<and> drawdown_curve scenario_report ! 1 = - (1 / 5)
   \<and> equity_curve scenario_report ! 1 / Max (set (take 2 (equity_curve scenario_report))) - 1
       = - (1 / 500)"
proof -
  have dd: "drawdown_curve scenario_report = drawdown scenario_df"
    and eq: "equity_curve scenario_report = equity_curve_v scenario_df"
    by (simp_all add: scenario_report_def report_def Let_def)
  show ?thesis
    by (simp add: scenario_run dd eq scenario_drawdown scenario_equity_curve_v)
qed

section \<open>Win rate\<close>

lemma two_day_frame: "DataFrame two_day = Inr two_day_df"
  by (simp add: DataFrame_def broadcast_def two_day_def two_day_df_def)

lemma two_day_Strategy_Returns: "Strategy_Returns two_day_df = [None, Some (49 / 500)]"
  by (simp add: Strategy_Returns_def Strategy_Returns_raw_def Commission_Cost_def
      Position_Change_def Position_def Target_def Returns_def pct_change_def diff_def
      shift1_def fillna_def nan2_def commission_def two_day_df_def)

lemma two_day_run: "run_backtest two_day = Inr two_day_report"
proof -
  have eq: "equity_curve_v two_day_df = [1000000, 1098000]"
    by (simp add: equity_curve_v_def cumulative_returns_def cumprod_def
        two_day_Strategy_Returns fillna_def initial_capital_def)
  have mk: "market_equity_v two_day_df = [1000000, 1100000]"
    by (simp add: market_equity_v_def market_cumulative_def market_returns_def cumprod_def
        Returns_def pct_change_def shift1_def nan2_def fillna_def initial_capital_def
        two_day_df_def)
  have ln: "len two_day_df = 2"
    by (simp add: len_def two_day_df_def)
  show ?thesis
    unfolding two_day_report_def
    by (rule run_backtest_moderate [OF two_day_frame])
      (simp_all add: ln final_equity_v_def eq mk initial_capital_def)
qed

text \<open>
  Claim C5 at the input \<open>two_day\<close>. The reported returns are \<open>[0, 0.098]\<close>: one positive
  period among one non-zero period, a win rate of 100 by the claim. The engine counts on
  the column before \<open>fillna\<close>, where the first row is NaN and \<open>NaN != 0\<close> holds, so its
  denominator is 2 and the reported win rate is 50.
\<close>

theorem win_rate_counts_first_period:
  "run_backtest two_day = Inr two_day_report
   \<and> returns two_day_report = [0, 49 / 500]
   \<and> length (filter (\<lambda>r. r > 0) (returns two_day_report)) = 1
   \<and> length (filter (\<lambda>r. r \<noteq> 0) (returns two_day_report)) = 1
   \<and> total_active_trades two_day_df = 2
   \<and> win_rate two_day_report = 50"
proof -
  have r: "returns two_day_report = [0, 49 / 500]"
    by (simp add: two_day_report_def report_def Let_def two_day_Strategy_Returns fillna_def)
  have t: "total_active_trades two_day_df = 2"
    by (simp add: total_active_trades_def two_day_Strategy_Returns)
  have w: "win_rate two_day_report = 50"
    by (simp add: two_day_report_def report_def Let_def win_rate_v_def t winning_trades_def
        two_day_Strategy_Returns)
  show ?thesis
    by (simp add: two_day_run r t w)
qed


section \<open>Errors\<close>

lemma equity_curve_v_empty:
  "DataFrame data = Inr df \<Longrightarrow> equity_curve_v df = [] \<longleftrightarrow> len df = 0"
  using equity_curve_v_length [of data df] by auto

lemma DataFrame_Inl:
  assumes "\<not> (length (closes data) = length (dates data) \<or> length (closes data) = 1)
         \<or> \<not> (length (macd data) = length (dates data) \<or> length (macd data) = 1)
         \<or> \<not> (length (macd_signal data) = length (dates data)
              \<or> length (macd_signal data) = 1)"
  shows "DataFrame data = Inl ValueError"
  using assms by (auto simp: DataFrame_def broadcast_def split: option.splits)

lemma DataFrame_fits:
  assumes "length (closes data) = length (dates data) \<or> length (closes data) = 1"
    and "length (macd data) = length (dates data) \<or> length (macd data) = 1"
    and "length (macd_signal data) = length (dates data) \<or> length (macd_signal data) = 1"
  shows "\<exists>df. DataFrame data = Inr df \<and> len df = length (dates data)"
  using assms by (auto simp: DataFrame_def broadcast_def len_def)

lemma short_macd_run: "run_backtest short_macd = Inr two_day_report"
proof -
  have f: "DataFrame short_macd = Inr two_day_df"
    by (simp add: DataFrame_def broadcast_def short_macd_def two_day_df_def)
  have r: "\<And>df a b. report short_macd df a b = report two_day df a b"
    by (simp add: report_def short_macd_def two_day_def)
  have "run_backtest short_macd = run_backtest two_day"
    unfolding run_backtest_def f two_day_frame r by (rule refl)
  then show ?thesis by (simp only: two_day_run)
qed

text \<open>
  Claim C6, as the code has it. The engine has no error kinds of its own and checks
  nothing itself. If the close, MACD or signal series has a length that is neither the
  number of dates nor 1, the run ends in the \<open>ValueError\<close> of the table constructor. If
  there are no dates and each of the three series is empty or has one value, it ends in
  the \<open>IndexError\<close> of \<open>equity_curve[-1]\<close>. In both cases the caller gets the exception
  and no report. No series is ever truncated; a series of one value is repeated to the
  number of dates without any error.
\<close>

theorem bad_input_raises:
  assumes "length (dates data) = 0
         \<or> \<not> (length (closes data) = length (dates data) \<or> length (closes data) = 1)
         \<or> \<not> (length (macd data) = length (dates data) \<or> length (macd data) = 1)
         \<or> \<not> (length (macd_signal data) = length (dates data)
              \<or> length (macd_signal data) = 1)"
  shows "run_backtest data =
           (if (length (closes data) = length (dates data) \<or> length (closes data) = 1)
               \<and> (length (macd data) = length (dates data) \<or> length (macd data) = 1)
               \<and> (length (macd_signal data) = length (dates data)
                  \<or> length (macd_signal data) = 1)
            then Inl IndexError else Inl ValueError)"
proof (cases "(length (closes data) = length (dates data) \<or> length (closes data) = 1)
               \<and> (length (macd data) = length (dates data) \<or> length (macd data) = 1)
               \<and> (length (macd_signal data) = length (dates data)
                  \<or> length (macd_signal data) = 1)")
  case True
  then obtain df where df: "DataFrame data = Inr df" and ln: "len df = length (dates data)"
    using DataFrame_fits [of data] by blast
  from True assms have "length (dates data) = 0" by blast
  with ln have "len df = 0" by simp
  then have "equity_curve_v df = []"
    using df by (simp add: equity_curve_v_empty)
  with df True show ?thesis
    by (simp add: run_backtest_def)
next
  case False
  then have "DataFrame data = Inl ValueError"
    by (intro DataFrame_Inl) blast
  with False show ?thesis
    by (simp add: run_backtest_def)
qed

theorem bad_input_raises_witness:
  "length (dates no_periods) = 0
   \<and> length (closes no_periods) = length (dates no_periods)
   \<and> length (macd no_periods) = length (dates no_periods)
   \<and> length (macd_signal no_periods) = length (dates no_periods)
   \<and> run_backtest no_periods = Inl IndexError
   \<and> length (macd long_macd) \<noteq> length (dates long_macd)
   \<and> length (macd long_macd) \<noteq> 1
   \<and> run_backtest long_macd = Inl ValueError"
proof -
  have h1: "length (dates no_periods) = 0
         \<or> \<not> (length (closes no_periods) = length (dates no_periods)
              \<or> length (closes no_periods) = 1)
         \<or> \<not> (length (macd no_periods) = length (dates no_periods)
              \<or> length (macd no_periods) = 1)
         \<or> \<not> (length (macd_signal no_periods) = length (dates no_periods)
              \<or> length (macd_signal no_periods) = 1)"
    by (simp add: no_periods_def)
  have h2: "length (dates long_macd) = 0
         \<or> \<not> (length (closes long_macd) = length (dates long_macd)
              \<or> length (closes long_macd) = 1)
         \<or> \<not> (length (macd long_macd) = length (dates long_macd)
              \<or> length (macd long_macd) = 1)
         \<or> \<not> (length (macd_signal long_macd) = length (dates long_macd)
              \<or> length (macd_signal long_macd) = 1)"
    by (simp add: long_macd_def)
  from bad_input_raises [OF h1] bad_input_raises [OF h2] show ?thesis
    by (simp add: no_periods_def long_macd_def)
qed

text \<open>
  The claim as first stated fails three ways: the empty input ends in \<open>IndexError\<close> and
  an over-long series in \<open>ValueError\<close>, neither of them a dedicated error, and the
  misaligned input \<open>short_macd\<close> raises nothing: its single MACD value is repeated and
  the run returns the report of \<open>two_day\<close>.
\<close>

theorem dedicated_error_counterexample:
  "run_backtest no_periods = Inl IndexError
   \<and> run_backtest no_periods \<noteq> Inl InsufficientDataError
   \<and> run_backtest no_periods \<noteq> Inl InvalidInputError
   \<and> run_backtest long_macd = Inl ValueError
   \<and> run_backtest long_macd \<noteq> Inl InvalidInputError
   \<and> length (macd short_macd) \<noteq> length (dates short_macd)
   \<and> run_backtest short_macd = Inr two_day_report"
proof -
  have a: "run_backtest no_periods = Inl IndexError"
    by (simp add: run_backtest_def DataFrame_def broadcast_def no_periods_def
        equity_curve_v_def cumulative_returns_def cumprod_def Strategy_Returns_def
        Strategy_Returns_raw_def Commission_Cost_def Position_Change_def Position_def
        Target_def Returns_def pct_change_def diff_def shift1_def fillna_def)
  have b: "run_backtest long_macd = Inl ValueError"
    by (simp add: run_backtest_def DataFrame_def broadcast_def long_macd_def)
  have c: "length (macd short_macd) \<noteq> length (dates short_macd)"
    by (simp add: short_macd_def)
  show ?thesis by (simp add: a b c short_macd_run)
qed


section \<open>The scenario\<close>

lemma scenario_trade_history:
  "trade_history scenario_df =
     \<lparr>position_open = False, entry_idx = 0, entry_price_v = 100,
      trades_v = [\<lparr>entry_date = ''2024-01-01'', exit_date = ''2024-01-04'',
         entry_price = 100, exit_price = 110, profit_loss = 48 / 5,
         profit_loss_pct = 48 / 5, duration_days = 3, trade_type = ''LONG''\<rparr>],
      buy_signals_v = [0], sell_signals_v = [3]\<rparr>"
proof -
  have u: "[0..<5] = [0, 1, 2, 3, 4]"
    by (simp add: upt_rec)
  have c: "Close scenario_df = [100, 100, 110, 110, 90]"
    and i: "index scenario_df = [''2024-01-01'', ''2024-01-02'', ''2024-01-03'',
       ''2024-01-04'', ''2024-01-05'']"
    by (simp_all add: scenario_df_def)
  show ?thesis
    by (simp add: trade_history_def trade_loop_def scenario_len u loop_body_def
        scenario_Target loop_init_def exit_record_def close_open_position_def c i
        commission_def Let_def)
qed


text \<open>
  Claim C8, as the code has it. On the scenario the targets are \<open>[1,1,1,0,0]\<close>, the
  positions \<open>[0,1,1,1,0]\<close>, and the ledger holds one trade, opened at index 0 at 100 and
  closed at index 3 at 110, with \<open>PL = (110 - 100) - 100 * 0.002 * 2 = 9.6\<close>. The commission
  is charged where the lagged position changes, at indices 1 and 4; the net returns are
  \<open>[0, -0.002, 0.1, 0, -0.002]\<close>, so index 2 is the one period with a price return, and
  the final equity is \<open>1,000,000 * 0.998 * 1.1 * 0.998 = 1,095,604.4\<close>.
\<close>

theorem scenario_outcome:
  "run_backtest scenario = Inr scenario_report
   \<and> Target scenario_df = [1, 1, 1, 0, 0]
   \<and> Position scenario_df = [0, 1, 1, 1, 0]
   \<and> trades scenario_report =
        [\<lparr>entry_date = ''2024-01-01'', exit_date = ''2024-01-04'', entry_price = 100,
          exit_price = 110, profit_loss = (110 - 100) - 100 * (2 / 1000) * 2,
          profit_loss_pct = 48 / 5, duration_days = 3, trade_type = ''LONG''\<rparr>]
   \<and> profit_loss (trades scenario_report ! 0) = 48 / 5
   \<and> buy_signals scenario_report = [0] \<and> sell_signals scenario_report = [3]
   \<and> Commission_Cost scenario_df = [None, Some (2 / 1000), Some 0, Some 0, Some (2 / 1000)]
   \<and> returns scenario_report = [0, - (2 / 1000), 1 / 10, 0, - (2 / 1000)]
   \<and> final_equity scenario_report = 1000000 * (998 / 1000) * (11 / 10) * (998 / 1000)
   \<and> final_equity scenario_report = 5478022 / 5"
proof -
  have t: "trades scenario_report = trades_v (trade_history scenario_df)"
    and b: "buy_signals scenario_report = buy_signals_v (trade_history scenario_df)"
    and s: "sell_signals scenario_report = sell_signals_v (trade_history scenario_df)"
    and r: "returns scenario_report = fillna 0 (Strategy_Returns scenario_df)"
    and f: "final_equity scenario_report = last (equity_curve_v scenario_df)"
    by (simp_all add: scenario_report_def report_def Let_def final_equity_v_def)
  show ?thesis
    by (simp add: scenario_run scenario_Target scenario_Position t b s r f
        scenario_trade_history scenario_Commission_Cost scenario_Strategy_Returns
        scenario_equity_curve_v fillna_def)
qed

theorem scenario_toggles_counterexample:
  "returns scenario_report ! 3 = 0
   \<and> Commission_Cost scenario_df ! 3 = Some 0
   \<and> Commission_Cost scenario_df ! 0 = None
   \<and> returns scenario_report ! 0 = 0
   \<and> Commission_Cost scenario_df ! 1 = Some (2 / 1000)
   \<and> Commission_Cost scenario_df ! 4 = Some (2 / 1000)
   \<and> returns scenario_report ! 1 = - (2 / 1000)
   \<and> returns scenario_report ! 4 = - (2 / 1000)"
proof -
  have r: "returns scenario_report = fillna 0 (Strategy_Returns scenario_df)"
    by (simp add: scenario_report_def report_def Let_def)
  show ?thesis
    by (simp add: r scenario_Commission_Cost scenario_Strategy_Returns fillna_def)
qed


section \<open>No lookahead\<close>

text \<open>
  Claim C4. Take an input with non-zero closes whose MACD and signal series have one value
  per date, so that \<open>MACD[t]\<close> and \<open>Signal[t]\<close> are values of the input, and replace these
  two by any values \<open>x\<close> and \<open>y\<close>, leaving the rest as it is. The table is built as before
  with only these two cells changed, and for every period up to and including \<open>t\<close> the
  position and the net strategy return are the same in both runs. \<open>Position[t]\<close> is 0 for
  \<open>t = 0\<close> and \<open>Target[t-1]\<close> otherwise.
\<close>

theorem no_lookahead:
  assumes "DataFrame data = Inr df" and "t < len df"
    and "0 \<notin> set (Close df)"
    and "length (macd data) = length (dates data)"
    and "length (macd_signal data) = length (dates data)"
  shows "DataFrame (data\<lparr>macd := (macd data)[t := x], macd_signal := (macd_signal data)[t := y]\<rparr>)
           = Inr (df\<lparr>MACD := (MACD df)[t := x], Signal := (Signal df)[t := y]\<rparr>)
       \<and> (\<forall>i\<le>t. Position (df\<lparr>MACD := (MACD df)[t := x], Signal := (Signal df)[t := y]\<rparr>) ! i
                   = Position df ! i
                \<and> Strategy_Returns (df\<lparr>MACD := (MACD df)[t := x], Signal := (Signal df)[t := y]\<rparr>) ! i
                   = Strategy_Returns df ! i)
       \<and> Position df ! t = (if t = 0 then 0 else of_int (Target df ! (t - 1)))"
proof -
  let ?data' = "data\<lparr>macd := (macd data)[t := x], macd_signal := (macd_signal data)[t := y]\<rparr>"
  let ?df' = "df\<lparr>MACD := (MACD df)[t := x], Signal := (Signal df)[t := y]\<rparr>"
  have df': "DataFrame ?data' = Inr ?df'"
    using assms(1,4,5)
    by (auto simp: DataFrame_def broadcast_def split: option.splits if_splits)
  have ln: "len ?df' = len df"
    by (simp add: len_def)
  have t': "t < len ?df'"
    using assms(2) by (simp only: ln)
  have cl: "Close ?df' = Close df" by simp
  have tg: "Target ?df' ! j = Target df ! j" if "j < t" for j
  proof -
    from that assms(2) have j: "j < len df" by simp
    then have j': "j < len ?df'" by (simp only: ln)
    have "Target ?df' ! j = (if MACD ?df' ! j > Signal ?df' ! j then 1 else 0)"
      using df' j' by (rule Target_nth)
    moreover have "Target df ! j = (if MACD df ! j > Signal df ! j then 1 else 0)"
      using assms(1) j by (rule Target_nth)
    ultimately show ?thesis using that by simp
  qed
  have ps: "Position ?df' ! i = Position df ! i" if "i \<le> t" for i
  proof (cases i)
    case 0
    have "0 < len df" using assms(2) by simp
    then have "0 < len ?df'" by (simp only: ln)
    with df' have "Position ?df' ! 0 = 0"
      by (rule Position_nth_0)
    moreover have "Position df ! 0 = 0"
      using assms(1) \<open>0 < len df\<close> by (rule Position_nth_0)
    ultimately show ?thesis using 0 by simp
  next
    case (Suc k)
    with that assms(2) have k: "Suc k < len df" "k < t" by simp_all
    from k(1) have k': "Suc k < len ?df'" by (simp only: ln)
    have "Position ?df' ! Suc k = of_int (Target ?df' ! k)"
      using df' k' by (rule Position_nth_Suc)
    moreover have "Position df ! Suc k = of_int (Target df ! k)"
      using assms(1) k(1) by (rule Position_nth_Suc)
    ultimately show ?thesis using Suc tg [OF k(2)] by simp
  qed
  have sr: "Strategy_Returns ?df' ! i = Strategy_Returns df ! i" if "i \<le> t" for i
  proof (cases i)
    case 0
    have "0 < len df" using assms(2) by simp
    then have "0 < len ?df'" by (simp only: ln)
    with df' have "Strategy_Returns ?df' ! 0 = None"
      by (rule Strategy_Returns_nth_0)
    moreover have "Strategy_Returns df ! 0 = None"
      using assms(1) \<open>0 < len df\<close> by (rule Strategy_Returns_nth_0)
    ultimately show ?thesis using 0 by simp
  next
    case (Suc k)
    with that assms(2) have k: "Suc k < len df" "Suc k \<le> t" "k \<le> t"
      by simp_all
    from k(1) have k': "Suc k < len ?df'" by (simp only: ln)
    have "Strategy_Returns ?df' ! Suc k =
        Some (Position ?df' ! Suc k * (Close ?df' ! Suc k / Close ?df' ! k - 1)
              - \<bar>Position ?df' ! Suc k - Position ?df' ! k\<bar> * commission)"
      using df' k' by (rule Strategy_Returns_nth_Suc)
    moreover have "Strategy_Returns df ! Suc k =
        Some (Position df ! Suc k * (Close df ! Suc k / Close df ! k - 1)
              - \<bar>Position df ! Suc k - Position df ! k\<bar> * commission)"
      using assms(1) k(1) by (rule Strategy_Returns_nth_Suc)
    ultimately show ?thesis
      using Suc ps [OF k(2)] ps [OF k(3)] by (simp add: cl)
  qed
  have p: "Position df ! t = (if t = 0 then 0 else of_int (Target df ! (t - 1)))"
  proof (cases t)
    case 0
    with assms show ?thesis by (simp add: Position_nth_0)
  next
    case (Suc k)
    with assms show ?thesis by (simp add: Position_nth_Suc)
  qed
  from df' ps sr p show ?thesis by blast
qed

theorem no_lookahead_witness:
  "DataFrame scenario = Inr scenario_df \<and> 3 < len scenario_df
   \<and> 0 \<notin> set (Close scenario_df)
   \<and> length (macd scenario) = length (dates scenario)
   \<and> length (macd_signal scenario) = length (dates scenario)
   \<and> Target scenario_df ! 3 = 0
   \<and> Target (scenario_df\<lparr>MACD := (MACD scenario_df)[3 := 5],
               Signal := (Signal scenario_df)[3 := 0]\<rparr>) ! 3 = 1
   \<and> Position (scenario_df\<lparr>MACD := (MACD scenario_df)[3 := 5],
               Signal := (Signal scenario_df)[3 := 0]\<rparr>) ! 3 = 1
   \<and> Strategy_Returns (scenario_df\<lparr>MACD := (MACD scenario_df)[3 := 5],
               Signal := (Signal scenario_df)[3 := 0]\<rparr>) ! 3 = Some 0"
proof -
  let ?df' = "scenario_df\<lparr>MACD := (MACD scenario_df)[3 := 5],
               Signal := (Signal scenario_df)[3 := 0]\<rparr>"
  have h2: "3 < len scenario_df" by (simp add: scenario_len)
  have h3: "0 \<notin> set (Close scenario_df)" by (simp add: scenario_columns)
  have h4: "length (macd scenario) = length (dates scenario)"
    and h5: "length (macd_signal scenario) = length (dates scenario)"
    by (simp_all add: scenario_def)
  have tg: "Target ?df' ! 3 = 1"
    by (simp add: Target_def scenario_df_def)
  from no_lookahead [OF scenario_frame h2 h3 h4 h5, where x = 5 and y = 0]
  have "\<forall>i\<le>3. Position ?df' ! i = Position scenario_df ! i
            \<and> Strategy_Returns ?df' ! i = Strategy_Returns scenario_df ! i"
    by blast
  then have "Position ?df' ! 3 = Position scenario_df ! 3
      \<and> Strategy_Returns ?df' ! 3 = Strategy_Returns scenario_df ! 3"
    by simp
  with scenario_frame h2 h3 h4 h5 tg show ?thesis
    by (simp add: scenario_Target scenario_Position scenario_Strategy_Returns)
qed

section \<open>Always long\<close>

lemma market_returns_length:
  "DataFrame data = Inr df \<Longrightarrow> length (market_returns df) = len df"
  by (simp add: market_returns_def Returns_length)

lemma market_returns_nth_0:
  assumes "DataFrame data = Inr df" and "0 < len df"
  shows "market_returns df ! 0 = 0"
proof -
  have "Returns df ! 0 = None"
    using assms by (simp add: Returns_def DataFrame_Inr pct_change_nth_0)
  with assms show ?thesis
    by (simp add: market_returns_def fillna_nth Returns_length)
qed

lemma market_returns_nth_Suc:
  assumes "DataFrame data = Inr df" and "Suc t < len df"
  shows "market_returns df ! Suc t = Close df ! Suc t / Close df ! t - 1"
proof -
  have "Returns df ! Suc t = Some (Close df ! Suc t / Close df ! t - 1)"
    using assms by (simp add: Returns_def DataFrame_Inr pct_change_nth_Suc)
  with assms show ?thesis
    by (simp add: market_returns_def fillna_nth Returns_length)
qed

lemma market_equity_v_length:
  "DataFrame data = Inr df \<Longrightarrow> length (market_equity_v df) = len df"
  by (simp add: market_equity_v_def market_cumulative_def cumprod_def market_returns_length)

lemma market_equity_v_nth:
  assumes "DataFrame data = Inr df" and "t < len df"
  shows "market_equity_v df ! t = initial_capital * (\<Prod>i\<le>t. 1 + market_returns df ! i)"
proof -
  let ?xs = "map (\<lambda>r. 1 + r) (market_returns df)"
  have len: "length ?xs = len df"
    using assms(1) by (simp add: market_returns_length)
  have "market_equity_v df ! t = initial_capital * (cumprod ?xs ! t)"
    using assms(2) len by (simp add: market_equity_v_def market_cumulative_def cumprod_def)
  also have "cumprod ?xs ! t = (\<Prod>i\<le>t. ?xs ! i)"
    using assms(2) len by (intro cumprod_nth) simp
  also have "\<dots> = (\<Prod>i\<le>t. 1 + market_returns df ! i)"
    using assms(2) len by (intro prod.cong) simp_all
  finally show ?thesis .
qed

lemma equity_curve_v_Suc:
  assumes "DataFrame data = Inr df" and "Suc t < len df"
  shows "equity_curve_v df ! Suc t =
           equity_curve_v df ! t * (1 + fillna 0 (Strategy_Returns df) ! Suc t)"
proof -
  from assms(2) have "t < len df" by simp
  with assms show ?thesis by (simp add: equity_curve_v_nth)
qed

lemma market_equity_v_Suc:
  assumes "DataFrame data = Inr df" and "Suc t < len df"
  shows "market_equity_v df ! Suc t = market_equity_v df ! t * (1 + market_returns df ! Suc t)"
proof -
  from assms(2) have "t < len df" by simp
  with assms show ?thesis by (simp add: market_equity_v_nth)
qed

lemma always_long_Position:
  assumes "DataFrame data = Inr df"
    and "\<forall>i<len df. Signal df ! i < MACD df ! i"
    and "t < len df"
  shows "Position df ! t = (if t = 0 then 0 else 1)"
proof (cases t)
  case 0
  with assms show ?thesis by (simp add: Position_nth_0)
next
  case (Suc k)
  with assms(3) have k: "k < len df" by simp
  with assms(1,2) have "Target df ! k = 1" by (simp add: Target_nth)
  with assms Suc show ?thesis by (simp add: Position_nth_Suc)
qed

lemma always_long_returns:
  assumes "DataFrame data = Inr df"
    and "\<forall>i<len df. Signal df ! i < MACD df ! i"
    and "t < len df"
  shows "fillna 0 (Strategy_Returns df) ! t =
           market_returns df ! t - (if t = 1 then commission else 0)"
proof (cases t)
  case 0
  with assms show ?thesis
    by (simp add: fillna_nth Strategy_Returns_length Strategy_Returns_nth_0
        market_returns_nth_0)
next
  case (Suc k)
  with assms(3) have k: "k < len df" by simp
  have p1: "Position df ! Suc k = 1"
    using always_long_Position [OF assms(1,2), of "Suc k"] assms(3) Suc by simp
  have p0: "Position df ! k = (if k = 0 then 0 else 1)"
    using assms(1,2) k by (rule always_long_Position)
  from assms Suc show ?thesis
    by (simp add: fillna_nth Strategy_Returns_length Strategy_Returns_nth_Suc
        market_returns_nth_Suc p1 p0)
qed

lemma always_long_equity:
  assumes "DataFrame data = Inr df"
    and "\<forall>i<len df. Signal df ! i < MACD df ! i"
    and "0 \<notin> set (Close df)"
    and "Suc k < len df"
  shows "equity_curve_v df ! Suc k =
           market_equity_v df ! Suc k * (1 - commission * Close df ! 0 / Close df ! 1)"
  using assms(4)
proof (induction k)
  case 0
  then have n: "0 < len df" "1 < len df" by auto
  have "Close df ! 0 \<in> set (Close df)" and "Close df ! 1 \<in> set (Close df)"
    using n DataFrame_Inr(1) [OF assms(1)] by (simp_all only: nth_mem)
  then have c0: "Close df ! 0 \<noteq> 0" and c1: "Close df ! 1 \<noteq> 0"
    using assms(3) by auto
  have e0: "equity_curve_v df ! 0 = initial_capital"
    using assms(1) n(1) by (rule equity_curve_v_0)
  have m0: "market_equity_v df ! 0 = initial_capital"
    using assms(1) n(1) by (simp add: market_equity_v_nth market_returns_nth_0)
  have r1: "fillna 0 (Strategy_Returns df) ! Suc 0 = market_returns df ! Suc 0 - commission"
    using always_long_returns [OF assms(1,2) n(2)] by simp
  have mr1: "market_returns df ! Suc 0 = Close df ! Suc 0 / Close df ! 0 - 1"
    using market_returns_nth_Suc [OF assms(1), of 0] n(2) by simp
  have a: "equity_curve_v df ! Suc 0 =
      initial_capital * (Close df ! 1 / Close df ! 0 - commission)"
    using equity_curve_v_Suc [OF assms(1), of 0] n(2) by (simp add: e0 r1 mr1)
  have b: "market_equity_v df ! Suc 0 = initial_capital * (Close df ! 1 / Close df ! 0)"
    using market_equity_v_Suc [OF assms(1), of 0] n(2) by (simp add: m0 mr1)
  show ?case
    unfolding a b using c0 c1 by (simp add: field_simps)
next
  case (Suc k)
  then have IH: "equity_curve_v df ! Suc k =
           market_equity_v df ! Suc k * (1 - commission * Close df ! 0 / Close df ! 1)"
    by simp
  have r: "fillna 0 (Strategy_Returns df) ! Suc (Suc k) = market_returns df ! Suc (Suc k)"
    using always_long_returns [OF assms(1,2) Suc.prems] by simp
  have "equity_curve_v df ! Suc (Suc k) =
          equity_curve_v df ! Suc k * (1 + market_returns df ! Suc (Suc k))"
    using equity_curve_v_Suc [OF assms(1) Suc.prems] by (simp add: r)
  moreover have "market_equity_v df ! Suc (Suc k) =
          market_equity_v df ! Suc k * (1 + market_returns df ! Suc (Suc k))"
    using assms(1) Suc.prems by (rule market_equity_v_Suc)
  ultimately show ?case by (simp add: IH)
qed

text \<open>
  Claim C9, as the code has it. The lagged position is never long in the first period, so
  "always long" is an input whose target is 1 in every period. For such an input with
  non-zero closes the position is 0 at \<open>t = 0\<close> and 1 afterwards; the net strategy return
  equals the period return in every period except \<open>t = 1\<close>, where the single entry
  commission is subtracted; and from \<open>t = 1\<close> on the strategy equity is the buy-and-hold
  equity times the constant \<open>1 - commission * Close[0] / Close[1]\<close>, while at \<open>t = 0\<close>
  the two are equal.
\<close>

theorem always_long_tracks_benchmark:
  assumes "run_backtest data = Inr m" and "DataFrame data = Inr df"
    and "\<forall>i<len df. Signal df ! i < MACD df ! i"
    and "0 \<notin> set (Close df)" and "t < len df"
  shows "Position df ! t = (if t = 0 then 0 else 1)
       \<and> returns m ! t = market_returns df ! t - (if t = 1 then commission else 0)
       \<and> equity_curve m ! t =
           market_equity m ! t *
             (if t = 0 then 1 else 1 - commission * Close df ! 0 / Close df ! 1)"
proof -
  from assms(1) obtain df' annual market_annual where
    df': "DataFrame data = Inr df'" and m: "m = report data df' annual market_annual"
    by (rule run_backtest_Inr)
  from df' assms(2) have [simp]: "df' = df" by simp
  have rt: "returns m = fillna 0 (Strategy_Returns df)"
    and eq: "equity_curve m = equity_curve_v df"
    and mk: "market_equity m = market_equity_v df"
    by (simp_all add: m report_def Let_def)
  have c1: "Position df ! t = (if t = 0 then 0 else 1)"
    using assms(2,3,5) by (rule always_long_Position)
  have c2: "fillna 0 (Strategy_Returns df) ! t =
      market_returns df ! t - (if t = 1 then commission else 0)"
    using assms(2,3,5) by (rule always_long_returns)
  have c3: "equity_curve_v df ! t = market_equity_v df ! t *
      (if t = 0 then 1 else 1 - commission * Close df ! 0 / Close df ! 1)"
  proof (cases t)
    case 0
    with assms(2,5) show ?thesis
      by (simp add: equity_curve_v_0 market_equity_v_nth market_returns_nth_0)
  next
    case (Suc k)
    with assms(5) have "Suc k < len df" by simp
    with assms(2,3,4) have "equity_curve_v df ! Suc k =
           market_equity_v df ! Suc k * (1 - commission * Close df ! 0 / Close df ! 1)"
      by (rule always_long_equity)
    with Suc show ?thesis by simp
  qed
  from c1 c2 c3 show ?thesis by (simp add: rt eq mk)
qed

lemma always_long_columns:
  "Close always_long_df = [100, 110, 121]"
  "MACD always_long_df = [1, 1, 1]"
  "Signal always_long_df = [0, 0, 0]"
  "len always_long_df = 3"
  by (simp_all add: always_long_df_def len_def)

lemma always_long_frame: "DataFrame always_long = Inr always_long_df"
  by (simp add: DataFrame_def broadcast_def always_long_def always_long_df_def)

lemma always_long_Position_ex: "Position always_long_df = [0, 1, 1]"
  by (simp add: Position_def Target_def shift1_def fillna_def always_long_df_def)

lemma always_long_Returns: "Returns always_long_df = [None, Some (1 / 10), Some (1 / 10)]"
  by (simp add: Returns_def pct_change_def shift1_def nan2_def always_long_df_def)

lemma always_long_market_returns: "market_returns always_long_df = [0, 1 / 10, 1 / 10]"
  by (simp add: market_returns_def always_long_Returns fillna_def)

lemma always_long_Strategy_Returns:
  "Strategy_Returns always_long_df = [None, Some (49 / 500), Some (1 / 10)]"
  by (simp add: Strategy_Returns_def Strategy_Returns_raw_def Commission_Cost_def
      Position_Change_def always_long_Position_ex always_long_Returns diff_def
      shift1_def nan2_def commission_def)

lemma always_long_run: "run_backtest always_long = Inr always_long_report"
proof -
  have eq: "equity_curve_v always_long_df = [1000000, 1098000, 1207800]"
    by (simp add: equity_curve_v_def cumulative_returns_def cumprod_def
        always_long_Strategy_Returns fillna_def initial_capital_def)
  have mk: "market_equity_v always_long_df = [1000000, 1100000, 1210000]"
    by (simp add: market_equity_v_def market_cumulative_def cumprod_def
        always_long_market_returns initial_capital_def)
  have ln: "len always_long_df = 3"
    by (simp add: len_def always_long_df_def)
  show ?thesis
    unfolding always_long_report_def
    by (rule run_backtest_moderate [OF always_long_frame])
      (simp_all add: ln final_equity_v_def eq mk initial_capital_def)
qed

theorem always_long_tracks_benchmark_witness:
  "run_backtest always_long = Inr always_long_report
   \<and> DataFrame always_long = Inr always_long_df
   \<and> Signal always_long_df ! 0 < MACD always_long_df ! 0
   \<and> Signal always_long_df ! 1 < MACD always_long_df ! 1
   \<and> Signal always_long_df ! 2 < MACD always_long_df ! 2
   \<and> len always_long_df = 3
   \<and> 0 \<notin> set (Close always_long_df) \<and> 2 < len always_long_df
   \<and> Position always_long_df ! 2 = 1
   \<and> returns always_long_report ! 2 = 1 / 10
   \<and> equity_curve always_long_report ! 2
       = market_equity always_long_report ! 2 * (1 - (2 / 1000) * 100 / 110)"
proof -
  have h3: "\<forall>i<len always_long_df. Signal always_long_df ! i < MACD always_long_df ! i"
    by (simp add: always_long_columns numeral_3_eq_3 less_Suc_eq)
  have h4: "0 \<notin> set (Close always_long_df)" by (simp add: always_long_columns)
  have h5: "2 < len always_long_df" by (simp add: always_long_columns)
  from always_long_tracks_benchmark [OF always_long_run always_long_frame h3 h4 h5]
    always_long_run always_long_frame h4 h5
  show ?thesis
    by (simp add: always_long_market_returns commission_def always_long_columns)
qed

theorem entry_commission_counterexample:
  "Target always_long_df = [1, 1, 1]
   \<and> Position always_long_df ! 0 = 0
   \<and> returns always_long_report ! 0 = market_returns always_long_df ! 0
   \<and> returns always_long_report ! 1 = market_returns always_long_df ! 1 - commission
   \<and> returns always_long_report ! 1 \<noteq> market_returns always_long_df ! 1"
proof -
  have r: "returns always_long_report = [0, 49 / 500, 1 / 10]"
    by (simp add: always_long_report_def report_def Let_def always_long_Strategy_Returns
        fillna_def)
  have t: "Target always_long_df = [1, 1, 1]"
    by (simp add: Target_def always_long_df_def)
  show ?thesis
    by (simp add: r t always_long_Position_ex always_long_market_returns commission_def)
qed

section \<open>Trade ledger\<close>

declare spec_ledger.simps [simp del]

lemma first_from_SomeD:
  assumes "first_from ts v i = Some j"
  shows "i \<le> j" and "j < length ts" and "ts ! j = v"
  using assms by (auto simp: first_from_def find_Some_iff)

lemma first_from_step:
  "i < length ts \<Longrightarrow>
   first_from ts v i = (if ts ! i = v then Some i else first_from ts v (Suc i))"
  by (simp add: first_from_def upt_conv_Cons)

lemma first_from_end: "length ts \<le> i \<Longrightarrow> first_from ts v i = None"
  by (simp add: first_from_def)

lemma spec_ledger_end: "length ts \<le> i \<Longrightarrow> spec_ledger ts i = []"
  by (simp add: spec_ledger.simps [of ts i] first_from_end)

lemma spec_ledger_skip:
  "i < length ts \<Longrightarrow> ts ! i \<noteq> 1 \<Longrightarrow> spec_ledger ts i = spec_ledger ts (Suc i)"
  by (simp add: spec_ledger.simps [of ts i] spec_ledger.simps [of ts "Suc i"] first_from_step)

lemma spec_ledger_open:
  "i < length ts \<Longrightarrow> ts ! i = 1 \<Longrightarrow>
   spec_ledger ts i =
     (case first_from ts 0 (Suc i) of
        None \<Rightarrow> [(i, length ts - 1)]
      | Some x \<Rightarrow> (i, x) # spec_ledger ts (Suc x))"
  by (simp add: spec_ledger.simps [of ts i] first_from_step)


lemma rest_of_history_end: "rest_of_history df (len df) s = close_open_position df s"
  by (simp add: rest_of_history_def)

lemma rest_of_history_step:
  "i < len df \<Longrightarrow> rest_of_history df i s = rest_of_history df (Suc i) (loop_body df i s)"
  by (simp add: rest_of_history_def upt_conv_Cons)

lemma exit_record_spec:
  "entry_price_v s = Close df ! entry_idx s \<Longrightarrow>
   exit_record df s i = spec_trade df (entry_idx s, i)"
  by (simp add: exit_record_def spec_trade_def Let_def)

lemma final_record_spec:
  assumes "entry_price_v s = Close df ! entry_idx s" and "length (Close df) = len df"
    and "0 < len df"
  shows "final_record df s = spec_trade df (entry_idx s, len df - 1)"
proof -
  from assms(2,3) have c: "Close df \<noteq> []" by auto
  from assms(3) have i: "index df \<noteq> []" unfolding len_def by auto
  have "last (Close df) = Close df ! (length (Close df) - 1)"
    using c by (rule last_conv_nth)
  then have lc: "last (Close df) = Close df ! (len df - 1)"
    by (simp only: assms(2))
  have "last (index df) = index df ! (length (index df) - 1)"
    using i by (rule last_conv_nth)
  then have li: "last (index df) = index df ! (len df - 1)"
    unfolding len_def .
  have du: "int (len df) - 1 - int (entry_idx s) = int (len df - 1) - int (entry_idx s)"
    using assms(3) by simp
  show ?thesis
    unfolding final_record_def spec_trade_def Let_def lc li du
    by (simp add: assms(1))
qed

lemma extends_flat_end:
  "\<not> position_open s \<Longrightarrow> extends df s [] [] (close_open_position df s)"
  by (simp add: extends_def close_open_position_def)

lemma extends_open_end:
  assumes "position_open s" and "entry_price_v s = Close df ! entry_idx s"
    and "length (Close df) = len df" and "0 < len df"
  shows "extends df s [(entry_idx s, len df - 1)] [] (close_open_position df s)"
  using assms by (simp add: extends_def close_open_position_def final_record_spec)

lemma extends_after_entry:
  assumes "extends df (s\<lparr>position_open := True, entry_idx := i, entry_price_v := c,
             buy_signals_v := buy_signals_v s @ [i]\<rparr>) ps bs r"
  shows "extends df s ps (i # bs) r"
  using assms by (simp add: extends_def)

lemma extends_after_exit:
  assumes "extends df (s\<lparr>position_open := False,
             trades_v := trades_v s @ [spec_trade df (e, i)],
             sell_signals_v := sell_signals_v s @ [i]\<rparr>) ps bs r"
  shows "extends df s ((e, i) # ps) bs r"
  using assms by (simp add: extends_def)



lemma rest_of_history_spec:
  assumes "length (Target df) = len df" and "length (Close df) = len df"
  shows "i \<le> len df \<Longrightarrow>
    (\<not> position_open s \<longrightarrow>
       extends df s (spec_ledger (Target df) i) (map fst (spec_ledger (Target df) i))
         (rest_of_history df i s))
    \<and> (position_open s \<and> entry_idx s < i \<and> entry_price_v s = Close df ! entry_idx s \<longrightarrow>
       (case first_from (Target df) 0 i of
          None \<Rightarrow> extends df s [(entry_idx s, len df - 1)] [] (rest_of_history df i s)
        | Some x \<Rightarrow>
            extends df s ((entry_idx s, x) # spec_ledger (Target df) (Suc x))
              (map fst (spec_ledger (Target df) (Suc x))) (rest_of_history df i s)))"
proof (induction "len df - i" arbitrary: i s)
  case 0
  then have i: "i = len df" by simp
  have n: "length (Target df) \<le> i" using assms(1) i by simp
  show ?case
  proof (intro conjI impI)
    assume "\<not> position_open s"
    then show "extends df s (spec_ledger (Target df) i) (map fst (spec_ledger (Target df) i))
         (rest_of_history df i s)"
      using n by (simp add: spec_ledger_end i rest_of_history_end extends_flat_end)
  next
    assume a: "position_open s \<and> entry_idx s < i \<and> entry_price_v s = Close df ! entry_idx s"
    then have "0 < len df" using i by simp
    with a assms(2)
    have "extends df s [(entry_idx s, len df - 1)] [] (close_open_position df s)"
      by (intro extends_open_end) simp_all
    then show "case first_from (Target df) 0 i of
          None \<Rightarrow> extends df s [(entry_idx s, len df - 1)] [] (rest_of_history df i s)
        | Some x \<Rightarrow>
            extends df s ((entry_idx s, x) # spec_ledger (Target df) (Suc x))
              (map fst (spec_ledger (Target df) (Suc x))) (rest_of_history df i s)"
      using n by (simp add: first_from_end i rest_of_history_end)
  qed
next
  case (Suc k)
  then have i: "i < len df" and k: "k = len df - Suc i" and le: "Suc i \<le> len df"
    by simp_all
  have it: "i < length (Target df)" using i assms(1) by simp
  note IH = Suc.hyps(1) [OF k le]
  have step: "rest_of_history df i s = rest_of_history df (Suc i) (loop_body df i s)"
    using i by (rule rest_of_history_step)
  show ?case
  proof (intro conjI impI)
    assume flat: "\<not> position_open s"
    show "extends df s (spec_ledger (Target df) i) (map fst (spec_ledger (Target df) i))
         (rest_of_history df i s)"
    proof (cases "Target df ! i = 1")
      case True
      let ?s1 = "s\<lparr>position_open := True, entry_idx := i, entry_price_v := Close df ! i,
          buy_signals_v := buy_signals_v s @ [i]\<rparr>"
      have lb: "loop_body df i s = ?s1"
        using flat True by (simp add: loop_body_def)
      have o: "position_open ?s1 \<and> entry_idx ?s1 < Suc i
          \<and> entry_price_v ?s1 = Close df ! entry_idx ?s1"
        by simp
      have sl: "spec_ledger (Target df) i =
          (case first_from (Target df) 0 (Suc i) of
             None \<Rightarrow> [(i, length (Target df) - 1)]
           | Some x \<Rightarrow> (i, x) # spec_ledger (Target df) (Suc x))"
        using it True by (rule spec_ledger_open)
      show ?thesis
      proof (cases "first_from (Target df) 0 (Suc i)")
        case None
        with IH [of ?s1] o
        have "extends df ?s1 [(i, len df - 1)] [] (rest_of_history df (Suc i) ?s1)"
          by simp
        then have "extends df s [(i, len df - 1)] [i] (rest_of_history df (Suc i) ?s1)"
          by (rule extends_after_entry)
        then show ?thesis
          using None by (simp add: sl step lb assms(1))
      next
        case (Some x)
        with IH [of ?s1] o
        have "extends df ?s1 ((i, x) # spec_ledger (Target df) (Suc x))
            (map fst (spec_ledger (Target df) (Suc x))) (rest_of_history df (Suc i) ?s1)"
          by simp
        then have "extends df s ((i, x) # spec_ledger (Target df) (Suc x))
            (i # map fst (spec_ledger (Target df) (Suc x))) (rest_of_history df (Suc i) ?s1)"
          by (rule extends_after_entry)
        then show ?thesis
          using Some by (simp add: sl step lb)
      qed
    next
      case False
      have lb: "loop_body df i s = s"
        using flat False by (simp add: loop_body_def)
      have "spec_ledger (Target df) i = spec_ledger (Target df) (Suc i)"
        using it False by (rule spec_ledger_skip)
      with IH [of s] flat show ?thesis
        by (simp add: step lb)
    qed
  next
    assume a: "position_open s \<and> entry_idx s < i \<and> entry_price_v s = Close df ! entry_idx s"
    show "case first_from (Target df) 0 i of
          None \<Rightarrow> extends df s [(entry_idx s, len df - 1)] [] (rest_of_history df i s)
        | Some x \<Rightarrow>
            extends df s ((entry_idx s, x) # spec_ledger (Target df) (Suc x))
              (map fst (spec_ledger (Target df) (Suc x))) (rest_of_history df i s)"
    proof (cases "Target df ! i = 0")
      case True
      let ?s1 = "s\<lparr>position_open := False,
          trades_v := trades_v s @ [spec_trade df (entry_idx s, i)],
          sell_signals_v := sell_signals_v s @ [i]\<rparr>"
      have lb: "loop_body df i s = ?s1"
        using a True by (simp add: loop_body_def exit_record_spec)
      have ff: "first_from (Target df) 0 i = Some i"
        using it True by (simp add: first_from_step)
      from IH [of ?s1]
      have "extends df ?s1 (spec_ledger (Target df) (Suc i))
          (map fst (spec_ledger (Target df) (Suc i))) (rest_of_history df (Suc i) ?s1)"
        by simp
      then have "extends df s ((entry_idx s, i) # spec_ledger (Target df) (Suc i))
          (map fst (spec_ledger (Target df) (Suc i))) (rest_of_history df (Suc i) ?s1)"
        by (rule extends_after_exit)
      then show ?thesis
        by (simp add: ff step lb)
    next
      case False
      have lb: "loop_body df i s = s"
        using a False by (simp add: loop_body_def)
      have ff: "first_from (Target df) 0 i = first_from (Target df) 0 (Suc i)"
        using it False by (simp add: first_from_step)
      from a have "position_open s \<and> entry_idx s < Suc i
          \<and> entry_price_v s = Close df ! entry_idx s"
        by simp
      with IH [of s] show ?thesis
        unfolding ff step lb by simp
    qed
  qed
qed


lemma trade_history_spec:
  assumes "DataFrame data = Inr df"
  shows "trades_v (trade_history df) = map (spec_trade df) (spec_ledger (Target df) 0)"
    and "buy_signals_v (trade_history df) = map fst (spec_ledger (Target df) 0)"
    and "sell_signals_v (trade_history df) = map snd (spec_ledger (Target df) 0)"
proof -
  have t: "length (Target df) = len df"
    using assms by (simp add: Target_length len_def DataFrame_Inr)
  have c: "length (Close df) = len df"
    using assms by (simp add: len_def DataFrame_Inr)
  have "trade_history df = rest_of_history df 0 loop_init"
    by (simp add: trade_history_def trade_loop_def rest_of_history_def)
  moreover have "\<not> position_open loop_init"
    by (simp add: loop_init_def)
  ultimately have "extends df loop_init (spec_ledger (Target df) 0)
      (map fst (spec_ledger (Target df) 0)) (trade_history df)"
    using rest_of_history_spec [OF t c, of 0 loop_init] by simp
  then show "trades_v (trade_history df) = map (spec_trade df) (spec_ledger (Target df) 0)"
    and "buy_signals_v (trade_history df) = map fst (spec_ledger (Target df) 0)"
    and "sell_signals_v (trade_history df) = map snd (spec_ledger (Target df) 0)"
    by (simp_all add: extends_def loop_init_def)
qed

lemma spec_ledger_bounds:
  "p \<in> set (spec_ledger ts i) \<Longrightarrow> i \<le> fst p \<and> fst p \<le> snd p \<and> snd p < length ts"
proof (induction ts i rule: spec_ledger.induct)
  case (1 ts i)
  show ?case
  proof (cases "first_from ts 1 i")
    case None
    with "1.prems" show ?thesis
      by (simp add: spec_ledger.simps [of ts i])
  next
    case (Some e)
    note e = first_from_SomeD [OF Some]
    show ?thesis
    proof (cases "first_from ts 0 (Suc e)")
      case None
      with Some "1.prems" have "p = (e, length ts - 1)"
        by (simp add: spec_ledger.simps [of ts i])
      with e show ?thesis by auto
    next
      case x: (Some x)
      note xb = first_from_SomeD [OF x]
      from Some x "1.prems" have "p = (e, x) \<or> p \<in> set (spec_ledger ts (Suc x))"
        by (simp add: spec_ledger.simps [of ts i])
      then show ?thesis
      proof
        assume "p = (e, x)"
        with e xb show ?thesis by auto
      next
        assume "p \<in> set (spec_ledger ts (Suc x))"
        then have "Suc x \<le> fst p \<and> fst p \<le> snd p \<and> snd p < length ts"
          using Some x by (rule "1.IH" [rotated 2])
        with e xb show ?thesis by auto
      qed
    qed
  qed
qed

lemma spec_ledger_no_overlap: "sorted_wrt (\<lambda>p q. snd p < fst q) (spec_ledger ts i)"
proof (induction ts i rule: spec_ledger.induct)
  case (1 ts i)
  show ?case
  proof (cases "first_from ts 1 i")
    case None
    then show ?thesis
      by (simp add: spec_ledger.simps [of ts i])
  next
    case (Some e)
    show ?thesis
    proof (cases "first_from ts 0 (Suc e)")
      case None
      with Some show ?thesis
        by (simp add: spec_ledger.simps [of ts i])
    next
      case x: (Some x)
      have "sorted_wrt (\<lambda>p q. snd p < fst q) (spec_ledger ts (Suc x))"
        using Some x by (rule "1.IH")
      moreover have "\<forall>q\<in>set (spec_ledger ts (Suc x)). x < fst q"
        using spec_ledger_bounds [of _ ts "Suc x"] by fastforce
      ultimately show ?thesis
        using Some x by (simp add: spec_ledger.simps [of ts i])
    qed
  qed
qed

text \<open>
  Claim C3. When a run on an input with non-zero closes returns its report, the ledger is
  the one the specification describes: scanning the targets from the left, a trade opens
  at the first period with target 1 while flat and closes at the next period with target 0,
  or at the last period when no such period is left. The entry and exit indices are
  reported as buy and sell signals. Trade \<open>k\<close> has its prices from the closes at its two
  indices, \<open>PL = (ExitPrice - EntryPrice) - EntryPrice * commission * 2\<close>,
  \<open>PL% = PL / EntryPrice * 100\<close>, \<open>Duration = exitIndex - entryIndex\<close> and type \<open>LONG\<close>.
  Every trade is closed before the next one opens, and no trade is closed before it opens.
\<close>

theorem ledger_scan:
  assumes "run_backtest data = Inr m" and "DataFrame data = Inr df"
    and "0 \<notin> set (Close df)"
  shows "trades m = map (spec_trade df) (spec_ledger (Target df) 0)
       \<and> buy_signals m = map fst (spec_ledger (Target df) 0)
       \<and> sell_signals m = map snd (spec_ledger (Target df) 0)
       \<and> total_trades m = length (spec_ledger (Target df) 0)
       \<and> (\<forall>k<length (trades m).
             entry_price (trades m ! k) = Close df ! (buy_signals m ! k)
           \<and> exit_price (trades m ! k) = Close df ! (sell_signals m ! k)
           \<and> profit_loss (trades m ! k) =
               (exit_price (trades m ! k) - entry_price (trades m ! k))
                 - entry_price (trades m ! k) * commission * 2
           \<and> profit_loss_pct (trades m ! k) =
               profit_loss (trades m ! k) / entry_price (trades m ! k) * 100
           \<and> duration_days (trades m ! k) =
               int (sell_signals m ! k) - int (buy_signals m ! k)
           \<and> trade_type (trades m ! k) = ''LONG''
           \<and> buy_signals m ! k \<le> sell_signals m ! k
           \<and> sell_signals m ! k < len df)
       \<and> sorted_wrt (\<lambda>p q. snd p < fst q) (spec_ledger (Target df) 0)"
proof -
  from assms(1) obtain df' annual market_annual where
    df': "DataFrame data = Inr df'" and m: "m = report data df' annual market_annual"
    by (rule run_backtest_Inr)
  from df' assms(2) have [simp]: "df' = df" by simp
  let ?ps = "spec_ledger (Target df) 0"
  have tr: "trades m = map (spec_trade df) ?ps"
    and bs: "buy_signals m = map fst ?ps"
    and ss: "sell_signals m = map snd ?ps"
    and tt: "total_trades m = length ?ps"
    by (simp_all add: m report_def Let_def trade_history_spec [OF assms(2)])
  have ln: "length (Target df) = len df"
    using assms(2) by (rule Target_length)
  have each: "entry_price (trades m ! k) = Close df ! (buy_signals m ! k)
           \<and> exit_price (trades m ! k) = Close df ! (sell_signals m ! k)
           \<and> profit_loss (trades m ! k) =
               (exit_price (trades m ! k) - entry_price (trades m ! k))
                 - entry_price (trades m ! k) * commission * 2
           \<and> profit_loss_pct (trades m ! k) =
               profit_loss (trades m ! k) / entry_price (trades m ! k) * 100
           \<and> duration_days (trades m ! k) =
               int (sell_signals m ! k) - int (buy_signals m ! k)
           \<and> trade_type (trades m ! k) = ''LONG''
           \<and> buy_signals m ! k \<le> sell_signals m ! k
           \<and> sell_signals m ! k < len df"
    if "k < length (trades m)" for k
  proof -
    from that have k: "k < length ?ps" by (simp add: tr)
    then have "?ps ! k \<in> set ?ps" by (rule nth_mem)
    then have "fst (?ps ! k) \<le> snd (?ps ! k) \<and> snd (?ps ! k) < len df"
      using spec_ledger_bounds [of "?ps ! k" "Target df" 0] ln by simp
    with k show ?thesis
      by (simp add: tr bs ss spec_trade_def Let_def)
  qed
  have "sorted_wrt (\<lambda>p q. snd p < fst q) ?ps"
    by (rule spec_ledger_no_overlap)
  with tr bs ss tt each show ?thesis by blast
qed


lemma scenario_spec_ledger: "spec_ledger [1, 1, 1, 0, 0] 0 = [(0, 3)]"
proof -
  have a: "first_from [1, 1, 1, 0, 0] 1 0 = Some 0"
    and b: "first_from [1, 1, 1, 0, 0] 0 (Suc 0) = Some 3"
    and c: "first_from [1, 1, 1, 0, 0] 1 4 = None"
    by (simp_all add: first_from_def upt_rec)
  have d: "spec_ledger [1, 1, 1, 0, 0] 4 = []"
    by (simp add: spec_ledger.simps [of _ 4] c)
  show ?thesis
    by (simp add: spec_ledger.simps [of _ 0] a b d)
qed

lemma always_long_spec_ledger: "spec_ledger [1, 1, 1] 0 = [(0, 2)]"
proof -
  have a: "first_from [1, 1, 1] 1 0 = Some 0"
    and b: "first_from [1, 1, 1] 0 (Suc 0) = None"
    by (simp_all add: first_from_def upt_rec)
  show ?thesis
    by (simp add: spec_ledger.simps [of _ 0] a b)
qed

theorem ledger_scan_witness:
  "run_backtest scenario = Inr scenario_report \<and> DataFrame scenario = Inr scenario_df
   \<and> 0 \<notin> set (Close scenario_df)
   \<and> buy_signals scenario_report = [0] \<and> sell_signals scenario_report = [3]
   \<and> total_trades scenario_report = 1
   \<and> run_backtest always_long = Inr always_long_report
   \<and> DataFrame always_long = Inr always_long_df
   \<and> 0 \<notin> set (Close always_long_df)
   \<and> buy_signals always_long_report = [0] \<and> sell_signals always_long_report = [2]
   \<and> map exit_price (trades always_long_report) = [121]"
proof -
  have h1: "0 \<notin> set (Close scenario_df)" by (simp add: scenario_columns)
  have h2: "0 \<notin> set (Close always_long_df)" by (simp add: always_long_columns)
  have t: "Target always_long_df = [1, 1, 1]"
    by (simp add: Target_def always_long_df_def)
  have c: "Close always_long_df = [100, 110, 121]"
    by (simp add: always_long_df_def)
  from ledger_scan [OF scenario_run scenario_frame h1]
    ledger_scan [OF always_long_run always_long_frame h2]
    scenario_run scenario_frame h1 always_long_run always_long_frame h2
  show ?thesis
    by (simp add: scenario_Target scenario_spec_ledger t always_long_spec_ledger
        spec_trade_def c)
qed

section \<open>Configuration\<close>

lemma Commission_Cost_nth_0:
  assumes "DataFrame data = Inr df" and "0 < len df"
  shows "Commission_Cost df ! 0 = None"
proof -
  have "0 < length (Position df)"
    using assms by (simp add: Position_length)
  then have "diff (Position df) ! 0 = None" by (rule diff_nth_0)
  with assms show ?thesis
    by (simp add: Commission_Cost_def Position_Change_def Position_length)
qed

lemma Commission_Cost_nth_Suc:
  assumes "DataFrame data = Inr df" and "Suc t < len df"
  shows "Commission_Cost df ! Suc t =
    Some (\<bar>Position df ! Suc t - Position df ! t\<bar> * commission)"
proof -
  have "Suc t < length (Position df)"
    using assms by (simp add: Position_length)
  then have "diff (Position df) ! Suc t = Some (Position df ! Suc t - Position df ! t)"
    by (rule diff_nth_Suc)
  with assms show ?thesis
    by (simp add: Commission_Cost_def Position_Change_def Position_length)
qed

lemma annualised_positive:
  assumes "annualised df final = Inr (PyFloat a)" and "0 < final" and "0 < len df"
  shows "a = ((final / initial_capital) powr (1 / (real (len df) / 252)) - 1) * 100"
proof -
  have y: "0 < years df" "1 / years df \<noteq> 0"
    using assms(3) by (simp_all add: years_def)
  have x: "0 < final / initial_capital"
    using assms(2) by (simp add: initial_capital_def)
  from assms(1) y x show ?thesis
    by (auto simp: annualised_def float_pow_def pynum_map_def years_def split: if_splits)
qed

text \<open>
  Claim C10. Capital and commission are constants of the engine, and they are the values
  it computes with. Every report echoes the configuration \<open>MLStrategy\<close>, 1,000,000.0,
  0.002, trade on close, \<open>Long-only\<close> and the initial capital 1,000,000.0. The strategy and
  benchmark equity curves are 1,000,000 times their running products, the total returns
  and the annualised returns are taken relative to 1,000,000, the commission of a period is
  the position change times 0.002 and is what the net return subtracts, and every trade of
  the ledger is charged 0.002 of its entry price twice. The result is determined by the
  date, close, MACD, signal and volume series alone: two callers' objects that agree on
  these five series get the same report, whatever else they carry.
\<close>

theorem fixed_configuration:
  assumes "run_backtest data = Inr m" and "DataFrame data = Inr df"
    and "t < len df" and "0 \<notin> set (Close df)"
    and "dates data' = dates data" and "closes data' = closes data"
    and "macd data' = macd data" and "macd_signal data' = macd_signal data"
    and "volumes data' = volumes data"
  shows "config m = \<lparr>strategy_name = ''MLStrategy'', initial_capital_cfg = 1000000,
             commission_cfg = 2 / 1000, trade_on_close = True,
             position_type = ''Long-only''\<rparr>
       \<and> initial_capital_m m = 1000000
       \<and> run_backtest data' = Inr m
       \<and> equity_curve m ! t = 1000000 * (\<Prod>i\<le>t. 1 + returns m ! i)
       \<and> market_equity m ! t = 1000000 * (\<Prod>i\<le>t. 1 + market_returns df ! i)
       \<and> Commission_Cost df ! t =
           (if t = 0 then None
            else Some (\<bar>Position df ! t - Position df ! (t - 1)\<bar> * (2 / 1000)))
       \<and> returns m ! t =
           (if t = 0 then 0
            else Position df ! t * (Close df ! t / Close df ! (t - 1) - 1)
                 - \<bar>Position df ! t - Position df ! (t - 1)\<bar> * (2 / 1000))
       \<and> total_return m = (final_equity m / 1000000 - 1) * 100
       \<and> market_total_return m = (last (market_equity m) / 1000000 - 1) * 100
       \<and> (0 < final_equity m \<longrightarrow>
            cagr m = ((final_equity m / 1000000) powr (1 / (real (len df) / 252)) - 1) * 100)
       \<and> annual_return m = cagr m
       \<and> (0 < last (market_equity m) \<longrightarrow>
            market_annual_return m =
              ((last (market_equity m) / 1000000) powr (1 / (real (len df) / 252)) - 1) * 100)
       \<and> (\<forall>k<length (trades m).
            profit_loss (trades m ! k) =
              (exit_price (trades m ! k) - entry_price (trades m ! k))
                - entry_price (trades m ! k) * (2 / 1000) * 2)"
proof -
  from assms(1) obtain df' annual market_annual where
    df': "DataFrame data = Inr df'"
    and ca: "cagr_v df' = Inr (PyFloat annual)"
    and ma: "market_annual_return_v df' = Inr (PyFloat market_annual)"
    and m: "m = report data df' annual market_annual"
    by (rule run_backtest_Inr)
  from df' assms(2) have [simp]: "df' = df" by simp
  have n: "0 < len df" using assms(3) by simp
  have c1: "config m = \<lparr>strategy_name = ''MLStrategy'', initial_capital_cfg = 1000000,
             commission_cfg = 2 / 1000, trade_on_close = True,
             position_type = ''Long-only''\<rparr>"
    and c2: "initial_capital_m m = 1000000"
    by (simp_all add: m report_def Let_def config_v_def initial_capital_def commission_def)
  have fd: "DataFrame data' = DataFrame data"
    unfolding DataFrame_def assms(5) assms(6) assms(7) assms(8) by (rule refl)
  have rp: "\<And>df a b. report data' df a b = report data df a b"
    using assms(5,6,9) by (simp add: report_def)
  have "run_backtest data' = run_backtest data"
    unfolding run_backtest_def fd rp by (rule refl)
  with assms(1) have c3: "run_backtest data' = Inr m" by simp
  have rt: "returns m = fillna 0 (Strategy_Returns df)"
    and eq: "equity_curve m = equity_curve_v df"
    and mk: "market_equity m = market_equity_v df"
    and fe: "final_equity m = final_equity_v df"
    and tr: "total_return m = total_return_v df"
    and mt: "market_total_return m = market_total_return_v df"
    and cg: "cagr m = annual" and an: "annual_return m = annual"
    and mg: "market_annual_return m = market_annual"
    and td: "trades m = trades_v (trade_history df)"
    by (simp_all add: m report_def Let_def)
  have c4: "equity_curve m ! t = 1000000 * (\<Prod>i\<le>t. 1 + returns m ! i)"
    using equity_curve_v_nth [OF assms(2,3)] by (simp add: eq rt initial_capital_def)
  have c5: "market_equity m ! t = 1000000 * (\<Prod>i\<le>t. 1 + market_returns df ! i)"
    using market_equity_v_nth [OF assms(2,3)] by (simp add: mk initial_capital_def)
  have c6: "Commission_Cost df ! t =
           (if t = 0 then None
            else Some (\<bar>Position df ! t - Position df ! (t - 1)\<bar> * (2 / 1000)))"
  proof (cases t)
    case 0
    with assms(2) n show ?thesis by (simp add: Commission_Cost_nth_0)
  next
    case (Suc k)
    with assms(2,3) show ?thesis by (simp add: Commission_Cost_nth_Suc commission_def)
  qed
  have c7: "returns m ! t =
           (if t = 0 then 0
            else Position df ! t * (Close df ! t / Close df ! (t - 1) - 1)
                 - \<bar>Position df ! t - Position df ! (t - 1)\<bar> * (2 / 1000))"
  proof (cases t)
    case 0
    with assms(2) n show ?thesis
      by (simp add: rt fillna_nth Strategy_Returns_length Strategy_Returns_nth_0)
  next
    case (Suc k)
    with assms(2,3) show ?thesis
      by (simp add: rt fillna_nth Strategy_Returns_length Strategy_Returns_nth_Suc
          commission_def)
  qed
  have c8: "total_return m = (final_equity m / 1000000 - 1) * 100"
    by (simp add: tr fe total_return_v_def initial_capital_def)
  have c9: "market_total_return m = (last (market_equity m) / 1000000 - 1) * 100"
    by (simp add: mt mk market_total_return_v_def initial_capital_def)
  have c10: "0 < final_equity m \<longrightarrow>
      cagr m = ((final_equity m / 1000000) powr (1 / (real (len df) / 252)) - 1) * 100"
  proof
    assume "0 < final_equity m"
    then have "0 < final_equity_v df" by (simp add: fe)
    with ca n
    have "annual = ((final_equity_v df / initial_capital)
        powr (1 / (real (len df) / 252)) - 1) * 100"
      by (intro annualised_positive) (simp_all add: cagr_v_def)
    then show "cagr m = ((final_equity m / 1000000)
        powr (1 / (real (len df) / 252)) - 1) * 100"
      by (simp add: cg fe initial_capital_def)
  qed
  have c11: "annual_return m = cagr m"
    by (simp add: cg an)
  have c12: "0 < last (market_equity m) \<longrightarrow>
      market_annual_return m =
        ((last (market_equity m) / 1000000) powr (1 / (real (len df) / 252)) - 1) * 100"
  proof
    assume "0 < last (market_equity m)"
    then have "0 < last (market_equity_v df)" by (simp add: mk)
    with ma n
    have "market_annual = ((last (market_equity_v df) / initial_capital)
        powr (1 / (real (len df) / 252)) - 1) * 100"
      by (intro annualised_positive) (simp_all add: market_annual_return_v_def)
    then show "market_annual_return m = ((last (market_equity m) / 1000000)
        powr (1 / (real (len df) / 252)) - 1) * 100"
      by (simp add: mg mk initial_capital_def)
  qed
  have c13: "\<forall>k<length (trades m).
      profit_loss (trades m ! k) =
        (exit_price (trades m ! k) - entry_price (trades m ! k))
          - entry_price (trades m ! k) * (2 / 1000) * 2"
    by (simp add: td trade_history_spec [OF assms(2)] spec_trade_def Let_def commission_def)
  show ?thesis
    by (intro conjI) (fact c1 c2 c3 c4 c5 c6 c7 c8 c9 c10 c11 c12 c13)+
qed

theorem fixed_configuration_witness:
  "run_backtest scenario = Inr scenario_report
   \<and> DataFrame scenario = Inr scenario_df
   \<and> 1 < len scenario_df \<and> 0 \<notin> set (Close scenario_df)
   \<and> dates scenario_with_config = dates scenario
   \<and> closes scenario_with_config = closes scenario
   \<and> macd scenario_with_config = macd scenario
   \<and> macd_signal scenario_with_config = macd_signal scenario
   \<and> volumes scenario_with_config = volumes scenario
   \<and> capital_in scenario_with_config = 5
   \<and> commission_in scenario_with_config = 1 / 2
   \<and> run_backtest scenario_with_config = Inr scenario_report
   \<and> initial_capital_m scenario_report = 1000000
   \<and> commission_cfg (config scenario_report) = 2 / 1000
   \<and> equity_curve scenario_report ! 1 = 1000000 * (1 - 2 / 1000)
   \<and> Commission_Cost scenario_df ! 1 = Some (2 / 1000)"
proof -
  have h3: "1 < len scenario_df" by (simp add: scenario_len)
  have h4: "0 \<notin> set (Close scenario_df)" by (simp add: scenario_columns)
  have h: "dates scenario_with_config = dates scenario"
    "closes scenario_with_config = closes scenario"
    "macd scenario_with_config = macd scenario"
    "macd_signal scenario_with_config = macd_signal scenario"
    "volumes scenario_with_config = volumes scenario"
    by (simp_all add: scenario_with_config_def)
  have r: "returns scenario_report = [0, - (1 / 500), 1 / 10, 0, - (1 / 500)]"
    by (simp add: scenario_report_def report_def Let_def scenario_Strategy_Returns fillna_def)
  have p: "(\<Prod>i\<le>Suc 0. 1 + returns scenario_report ! i) = 1 - 2 / 1000"
    by (simp add: r)
  from fixed_configuration [OF scenario_run scenario_frame h3 h4 h]
    scenario_run scenario_frame h3 h4 h
  show ?thesis
    by (simp add: scenario_with_config_def scenario_Position scenario_columns r)
qed


section \<open>Runs that raise after the table is built\<close>

text \<open>
  In \<open>crash_after_entry\<close> the close falls from 1000 to 1 in the one period the position is
  held; the net return of that period is \<open>-1.001\<close>, the final equity is \<open>-998\<close>, the
  exponent \<open>252 / 5\<close> is fractional, the annualised return is complex and
  \<open>float(annual_return)\<close> raises. In \<open>surge_after_entry\<close> the close rises from 1 to
  100000 in the one period held, and \<open>99999.998 ** 126.0\<close> is beyond the range of a double.
\<close>

lemma float_pow_negative_fraction:
  assumes "x < 0" and "- 1 \<le> x" and "0 < y" and "y \<noteq> of_int \<lfloor>y\<rfloor>"
  shows "float_pow x y = Inr PyComplex"
proof -
  have "(- x) powr y \<le> 1"
    using assms(1,2,3) by (intro powr_le1) simp_all
  also have "\<dots> < double_limit" by (simp add: double_limit_def)
  finally have "(- x) powr y < double_limit" .
  with assms(1,3,4) show ?thesis by (simp add: float_pow_def)
qed

lemma crash_after_entry_run: "run_backtest crash_after_entry = Inl TypeError"
proof -
  have f: "DataFrame crash_after_entry = Inr crash_after_entry_df"
    by (simp add: DataFrame_def broadcast_def crash_after_entry_def crash_after_entry_df_def)
  have p: "Position crash_after_entry_df = [0, 1, 0, 0, 0]"
    by (simp add: Position_def Target_def shift1_def fillna_def crash_after_entry_df_def)
  have r: "Returns crash_after_entry_df = [None, Some (- (999 / 1000)), Some 0, Some 0, Some 0]"
    by (simp add: Returns_def pct_change_def shift1_def nan2_def crash_after_entry_df_def)
  have s: "Strategy_Returns crash_after_entry_df =
      [None, Some (- (1001 / 1000)), Some (- (2 / 1000)), Some 0, Some 0]"
    by (simp add: Strategy_Returns_def Strategy_Returns_raw_def Commission_Cost_def
        Position_Change_def p r diff_def shift1_def nan2_def commission_def)
  have e: "equity_curve_v crash_after_entry_df = [1000000, - 1000, - 998, - 998, - 998]"
    by (simp add: equity_curve_v_def cumulative_returns_def cumprod_def s fillna_def
        initial_capital_def)
  have m: "market_equity_v crash_after_entry_df = [1000000, 1000, 1000, 1000, 1000]"
    by (simp add: market_equity_v_def market_cumulative_def market_returns_def cumprod_def
        r fillna_def initial_capital_def)
  have l: "len crash_after_entry_df = 5"
    by (simp add: len_def crash_after_entry_df_def)
  have "float_pow (- 998 / 1000000) (252 / 5) = Inr PyComplex"
    by (rule float_pow_negative_fraction) simp_all
  then have c: "cagr_v crash_after_entry_df = Inr PyComplex"
    by (simp add: cagr_v_def annualised_def years_def l final_equity_v_def e
        initial_capital_def pynum_map_def)
  have "\<exists>b. market_annual_return_v crash_after_entry_df = Inr (PyFloat b)"
    unfolding market_annual_return_v_def
    by (subst annualised_moderate) (simp_all add: l m initial_capital_def)
  then obtain b where b: "market_annual_return_v crash_after_entry_df = Inr (PyFloat b)" ..
  show ?thesis
    by (simp add: run_backtest_def f e c b py_float_def)
qed

lemma surge_after_entry_run: "run_backtest surge_after_entry = Inl OverflowError"
proof -
  let ?df = "\<lparr>Close = [1, 100000], MACD = [1, 1], Signal = [0, 0],
     index = [''2024-01-01'', ''2024-01-02'']\<rparr>"
  have f: "DataFrame surge_after_entry = Inr ?df"
    by (simp add: DataFrame_def broadcast_def surge_after_entry_def)
  have s: "Strategy_Returns ?df = [None, Some (49999499 / 500)]"
    by (simp add: Strategy_Returns_def Strategy_Returns_raw_def Commission_Cost_def
        Position_Change_def Position_def Target_def Returns_def pct_change_def diff_def
        shift1_def fillna_def nan2_def commission_def)
  have e: "equity_curve_v ?df = [1000000, 99999998000]"
    by (simp add: equity_curve_v_def cumulative_returns_def cumprod_def s fillna_def
        initial_capital_def)
  have l: "len ?df = 2"
    by (simp add: len_def)
  have "(0 :: real) \<le> 2 ^ 970" by (rule zero_le_power) simp
  then have "double_limit \<le> (2 :: real) ^ 1024"
    unfolding double_limit_def by linarith
  also have "\<dots> \<le> (2 :: real) ^ (16 * 126)"
    by (rule power_increasing) simp_all
  also have "\<dots> = ((2 :: real) ^ 16) ^ 126"
    by (rule power_mult)
  also have "\<dots> \<le> (49999999 / 500 :: real) ^ 126"
    by (rule power_mono) simp_all
  finally have "\<not> (49999999 / 500 :: real) ^ 126 < double_limit"
    by (simp only: not_less)
  then have "float_pow (49999999 / 500) 126 = Inl OverflowError"
    by (simp add: float_pow_def del: power_numeral)
  then have c: "cagr_v ?df = Inl OverflowError"
    by (simp add: cagr_v_def annualised_def years_def l final_equity_v_def e
        initial_capital_def)
  show ?thesis
    by (simp add: run_backtest_def f e c)
qed

end
